theory Spec2Isabelle
  imports Complex_Main "HOL-Library.List_Lexorder" "HOL-Library.Char_ord"
    "HOL-Library.Product_Lexorder"
begin

section \<open>Data model (app/models/schemas.py)\<close>

text \<open>
  Python floats are modelled as \<^typ>\<open>real\<close>, Python ints as \<^typ>\<open>int\<close>. A timestamp
  (an ISO-8601 text produced by \<open>datetime.isoformat()\<close>) is modelled by the instant it
  denotes, in microseconds: the fixed-width ISO texts compare as the instants do.
  \<open>ResourceType = Literal["edge", "cloud", "gpu"]\<close> and the job type literal are datatypes.
\<close>

type_synonym timestamp = int

datatype resource_type = Edge | Cloud | Gpu

datatype job_type = Batch | Inference | Training

fun resource_type_str :: "resource_type \<Rightarrow> string" where
  "resource_type_str Edge = ''edge''"
| "resource_type_str Cloud = ''cloud''"
| "resource_type_str Gpu = ''gpu''"

record sla =
  deadline_ms :: "int option"
  max_cost_usd :: "real option"
  min_reliability :: "real option"

text \<open>
  \<open>JobRequest.hints\<close> is a free-form dictionary; the four keys the code reads are modelled,
  each with the type the code expects of it (an absent key is \<open>None\<close>, an absent or empty
  list is \<open>[]\<close>, an absent or falsy flag is \<open>False\<close>).
\<close>

record hints =
  force_resource_type :: "string option"
  force_resource_id :: "string option"
  exclude_resource_ids :: "string list"
  force_fail_first :: bool

record job_request =
  req_job_id :: string
  req_job_type :: job_type
  req_urgency :: real
  req_payload_size_mb :: real
  req_requires_gpu :: bool
  req_allow_sla_fallback :: bool
  req_sla :: sla
  req_hints :: hints

record telemetry_point =
  tp_ts :: timestamp
  tp_resource_id :: string
  tp_resource_type :: resource_type
  tp_cpu_util :: real
  tp_mem_util :: real
  tp_gpu_util :: real
  tp_net_rtt_ms :: real
  tp_net_bw_mbps :: real
  tp_price_per_hour_usd :: real
  tp_reliability :: real
  tp_power_w :: real

record resource_snapshot =
  rs_resource_id :: string
  rs_resource_type :: resource_type
  rs_last :: telemetry_point

record normalized =
  n_latency :: real
  n_cost :: real
  n_reliability :: real
  n_energy :: real
  n_congestion :: real

record weights =
  w_latency :: real
  w_cost :: real
  w_reliability :: real
  w_energy :: real

record score_breakdown =
  sb_latency_pred_ms :: real
  sb_cost_pred_usd :: real
  sb_reliability :: real
  sb_energy_w :: real
  sb_congestion :: real
  sb_normalized :: normalized
  sb_weighted_components :: weights
  sb_final_score :: real
  sb_sla_ok :: bool
  sb_effective_score :: real
  sb_sla_violations :: "string list"

record considered_item =
  ci_resource_id :: string
  ci_resource_type :: resource_type
  ci_score :: score_breakdown

record route_decision =
  rd_job_id :: string
  rd_chosen_resource_id :: string
  rd_chosen_resource_type :: resource_type
  rd_considered :: "considered_item list"
  rd_explanation :: string

section \<open>Feature builder (app/services/features.py)\<close>

text \<open>
  The feature dictionary handed to the predictors: the fields of \<open>FeatureVector\<close>, the two
  categorical keys \<open>score_resource\<close> adds with \<open>setdefault\<close>, and \<open>latency_pred_ms\<close>, absent
  until \<open>score_resource\<close> injects it.
\<close>

record features =
  f_congestion :: real
  f_cpu_util :: real
  f_mem_util :: real
  f_gpu_util :: real
  f_net_rtt_ms :: real
  f_net_bw_mbps :: real
  f_price_per_hour_usd :: real
  f_reliability :: real
  f_power_w :: real
  f_urgency :: real
  f_payload_size_mb :: real
  f_requires_gpu :: bool
  f_job_type :: job_type
  f_resource_type :: resource_type
  f_latency_pred_ms :: "real option"

definition compute_congestion :: "telemetry_point \<Rightarrow> real" where
  "compute_congestion t =
     (let base = (tp_cpu_util t + tp_mem_util t) / 2;
          base' = (if tp_resource_type t = Gpu then (base + tp_gpu_util t) / 2 else base)
      in max 0 (min 1 base'))"

definition build_features :: "telemetry_point \<Rightarrow> job_request \<Rightarrow> features" where
  "build_features t job =
     \<lparr> f_congestion = compute_congestion t,
       f_cpu_util = tp_cpu_util t,
       f_mem_util = tp_mem_util t,
       f_gpu_util = tp_gpu_util t,
       f_net_rtt_ms = tp_net_rtt_ms t,
       f_net_bw_mbps = tp_net_bw_mbps t,
       f_price_per_hour_usd = tp_price_per_hour_usd t,
       f_reliability = tp_reliability t,
       f_power_w = tp_power_w t,
       f_urgency = req_urgency job,
       f_payload_size_mb = req_payload_size_mb job,
       f_requires_gpu = req_requires_gpu job,
       f_job_type = req_job_type job,
       f_resource_type = tp_resource_type t,
       f_latency_pred_ms = None \<rparr>"

section \<open>Normalizer (app/services/normalization.py)\<close>

definition DEFAULT_BOUNDS :: "string \<Rightarrow> real \<times> real" where
  "DEFAULT_BOUNDS name =
     (if name = ''latency_ms'' then (5, 4000)
      else if name = ''cost_usd'' then (0.0001, 0.2)
      else if name = ''reliability'' then (0.80, 0.999)
      else if name = ''energy_w'' then (5, 400)
      else (0, 1))"

text \<open>
  The environment of the scorer: the two sections of the YAML configuration it reads, the
  two predictors (learned models loaded from disk, outside the repository's code), and the
  rendering of numbers inside f-strings (\<open>env_fmt spec x\<close> is Python's \<open>format(x, spec)\<close>,
  \<open>env_str_real\<close> and \<open>env_str_int\<close> are \<open>str\<close>).
\<close>

record env =
  cfg_normalization_bounds :: "string \<Rightarrow> (real \<times> real) option"
  cfg_scoring_weights :: "string \<Rightarrow> real option"
  env_predict_latency :: "features \<Rightarrow> real \<times> real"
  env_predict_cost :: "features \<Rightarrow> real \<times> real"
  env_fmt :: "string \<Rightarrow> real \<Rightarrow> string"
  env_str_real :: "real \<Rightarrow> string"
  env_str_int :: "int \<Rightarrow> string"

definition bounds :: "env \<Rightarrow> string \<Rightarrow> real \<times> real" where
  "bounds e name =
     (case cfg_normalization_bounds e name of Some b \<Rightarrow> b | None \<Rightarrow> DEFAULT_BOUNDS name)"

definition minmax01 :: "real \<Rightarrow> real \<Rightarrow> real \<Rightarrow> bool \<Rightarrow> real" where
  "minmax01 x min_v max_v invert =
     (if max_v \<le> min_v then 0
      else let v = (x - min_v) / (max_v - min_v);
               v1 = (if v < 0 then 0 else v);
               v2 = (if v1 > 1 then 1 else v1)
           in if invert then 1 - v2 else v2)"

definition normalize_scores :: "env \<Rightarrow> real \<Rightarrow> real \<Rightarrow> real \<Rightarrow> real \<Rightarrow> real \<Rightarrow> normalized" where
  "normalize_scores e latency_ms cost_usd reliability energy_w congestion =
     (let (lmin, lmax) = bounds e ''latency_ms'';
          (cmin, cmax) = bounds e ''cost_usd'';
          (rmin, rmax) = bounds e ''reliability'';
          (emin, emax) = bounds e ''energy_w'';
          (gmin, gmax) = bounds e ''congestion''
      in \<lparr> n_latency = minmax01 latency_ms lmin lmax True,
           n_cost = minmax01 cost_usd cmin cmax True,
           n_reliability = minmax01 reliability rmin rmax False,
           n_energy = minmax01 energy_w emin emax True,
           n_congestion = minmax01 congestion gmin gmax True \<rparr>)"

section \<open>Predictor fallbacks (app/services/latency_ml.py, cost_ml.py)\<close>

text \<open>The analytic branches the predictors take when no model file is present.\<close>

definition predict_latency_fallback :: "features \<Rightarrow> real \<times> real" where
  "predict_latency_fallback f =
     (let mean = f_net_rtt_ms f + 20 * f_payload_size_mb f / max 1 (f_net_bw_mbps f)
                 + 500 * f_congestion f
      in (mean, mean * 1.25))"

definition base_cost :: "features \<Rightarrow> real \<Rightarrow> real" where
  "base_cost f latency_ms =
     (let rt = f_resource_type f;
          price0 = f_price_per_hour_usd f;
          price = (if price0 \<le> 0
                   then (if rt = Edge then 0.01 else if rt = Cloud then 0.08 else 1.20)
                   else price0);
          payload = f_payload_size_mb f;
          runtime_h = (latency_ms / 1000) / 3600;
          egress = (if rt = Cloud then 0.00002 * payload else 0)
      in price * runtime_h + egress)"

definition predict_cost_fallback :: "features \<Rightarrow> real \<times> real" where
  "predict_cost_fallback f =
     (let lat0 = (case f_latency_pred_ms f of None \<Rightarrow> 0 | Some l \<Rightarrow> l);
          lat = (if lat0 \<le> 0 then 800 else lat0);
          mean = base_cost f lat
      in (mean, mean * 1.2))"

section \<open>Scorer (app/services/scoring.py)\<close>

definition DEFAULT_WEIGHTS :: weights where
  "DEFAULT_WEIGHTS = \<lparr> w_latency = 0.45, w_cost = 0.25, w_reliability = 0.20, w_energy = 0.10 \<rparr>"

definition weights_of :: "env \<Rightarrow> weights" where
  "weights_of e =
     (let ov = (\<lambda>k d. case cfg_scoring_weights e k of Some v \<Rightarrow> v | None \<Rightarrow> d);
          l = ov ''latency'' (w_latency DEFAULT_WEIGHTS);
          c = ov ''cost'' (w_cost DEFAULT_WEIGHTS);
          r = ov ''reliability'' (w_reliability DEFAULT_WEIGHTS);
          g = ov ''energy'' (w_energy DEFAULT_WEIGHTS);
          s = l + c + r + g
      in if s \<le> 0 then DEFAULT_WEIGHTS
         else \<lparr> w_latency = l / s, w_cost = c / s, w_reliability = r / s, w_energy = g / s \<rparr>)"

definition deadline_msg :: "env \<Rightarrow> real \<Rightarrow> int \<Rightarrow> string" where
  "deadline_msg e latency_ms d =
     ''deadline_ms violated: predicted '' @ env_fmt e ''.0f'' latency_ms @ '' > '' @ env_str_int e d"

definition max_cost_msg :: "env \<Rightarrow> real \<Rightarrow> real \<Rightarrow> string" where
  "max_cost_msg e cost_usd c =
     ''max_cost_usd violated: predicted '' @ env_fmt e ''.4f'' cost_usd @ '' > '' @ env_str_real e c"

definition min_reliability_msg :: "env \<Rightarrow> real \<Rightarrow> real \<Rightarrow> string" where
  "min_reliability_msg e reliability r =
     ''min_reliability violated: '' @ env_fmt e ''.3f'' reliability @ '' < '' @ env_str_real e r"

definition sla_check :: "env \<Rightarrow> job_request \<Rightarrow> real \<Rightarrow> real \<Rightarrow> real \<Rightarrow> string list" where
  "sla_check e job latency_ms cost_usd reliability =
     (case deadline_ms (req_sla job) of
        Some d \<Rightarrow> if latency_ms > real_of_int d then [deadline_msg e latency_ms d] else []
      | None \<Rightarrow> [])
     @ (case max_cost_usd (req_sla job) of
        Some c \<Rightarrow> if cost_usd > c then [max_cost_msg e cost_usd c] else []
      | None \<Rightarrow> [])
     @ (case min_reliability (req_sla job) of
        Some r \<Rightarrow> if reliability < r then [min_reliability_msg e reliability r] else []
      | None \<Rightarrow> [])"

text \<open>Python's \<open>x or d\<close> on a float: zero is falsy.\<close>

definition or_float :: "real \<Rightarrow> real \<Rightarrow> real" where
  "or_float x d = (if x = 0 then d else x)"

text \<open>
  The feature dictionary after the latency prediction has been injected: the predictor is
  called once without \<open>latency_pred_ms\<close>, its mean is stored, and it is called again; the
  second result is the one kept.
\<close>

definition latency_of :: "env \<Rightarrow> telemetry_point \<Rightarrow> job_request \<Rightarrow> real \<times> real" where
  "latency_of e t job =
     (let fd = build_features t job;
          lat1 = env_predict_latency e fd;
          fd1 = fd\<lparr> f_latency_pred_ms := Some (fst lat1) \<rparr>
      in env_predict_latency e fd1)"

definition cost_of :: "env \<Rightarrow> telemetry_point \<Rightarrow> job_request \<Rightarrow> real \<times> real" where
  "cost_of e t job =
     env_predict_cost e ((build_features t job)\<lparr> f_latency_pred_ms := Some (fst (latency_of e t job)) \<rparr>)"

definition score_resource :: "env \<Rightarrow> telemetry_point \<Rightarrow> job_request \<Rightarrow> score_breakdown" where
  "score_resource e t job =
     (let w = weights_of e;
          f = build_features t job;
          (latency_mean_ms, latency_p90_ms) = latency_of e t job;
          (cost_mean_usd, cost_p90_usd) = cost_of e t job;
          congestion = f_congestion f;
          reliability = or_float (tp_reliability t) 0.98;
          energy_w = or_float (tp_power_w t) 50;
          norm = normalize_scores e latency_mean_ms cost_mean_usd reliability energy_w congestion;
          weighted_components =
            \<lparr> w_latency = w_latency w * n_latency norm,
              w_cost = w_cost w * n_cost norm,
              w_reliability = w_reliability w * n_reliability norm,
              w_energy = w_energy w * n_energy norm \<rparr>;
          final = w_latency weighted_components + w_cost weighted_components
                  + w_reliability weighted_components + w_energy weighted_components;
          violations = sla_check e job latency_p90_ms cost_p90_usd reliability;
          sla_ok = (length violations = 0);
          penalty = 0.35 * real (length violations);
          effective = final - penalty
      in \<lparr> sb_latency_pred_ms = latency_mean_ms,
           sb_cost_pred_usd = cost_mean_usd,
           sb_reliability = reliability,
           sb_energy_w = energy_w,
           sb_congestion = congestion,
           sb_normalized = norm,
           sb_weighted_components = weighted_components,
           sb_final_score = final,
           sb_sla_ok = sla_ok,
           sb_effective_score = effective,
           sb_sla_violations = violations \<rparr>)"

section \<open>Telemetry store (app/services/storage.py)\<close>

text \<open>
  A row of the \<open>telemetry\<close> table. The numeric columns are nullable \<open>REAL\<close>s; the extra
  JSON column is not read by the router and is left out.
\<close>

record telemetry_row =
  tr_ts :: timestamp
  tr_resource_id :: string
  tr_resource_type :: resource_type
  tr_cpu_util :: "real option"
  tr_mem_util :: "real option"
  tr_gpu_util :: "real option"
  tr_net_rtt_ms :: "real option"
  tr_net_bw_mbps :: "real option"
  tr_price_per_hour_usd :: "real option"
  tr_reliability :: "real option"
  tr_power_w :: "real option"

text \<open>\<open>row[col] or d\<close> on a nullable \<open>REAL\<close>: both \<open>NULL\<close> and \<open>0.0\<close> are falsy.\<close>

definition or_default :: "real option \<Rightarrow> real \<Rightarrow> real" where
  "or_default v d = (case v of None \<Rightarrow> d | Some x \<Rightarrow> if x = 0 then d else x)"

definition insert_point :: "telemetry_point \<Rightarrow> telemetry_row list \<Rightarrow> telemetry_row list" where
  "insert_point p tbl = tbl @
     [\<lparr> tr_ts = tp_ts p,
        tr_resource_id = tp_resource_id p,
        tr_resource_type = tp_resource_type p,
        tr_cpu_util = Some (tp_cpu_util p),
        tr_mem_util = Some (tp_mem_util p),
        tr_gpu_util = Some (tp_gpu_util p),
        tr_net_rtt_ms = Some (tp_net_rtt_ms p),
        tr_net_bw_mbps = Some (tp_net_bw_mbps p),
        tr_price_per_hour_usd = Some (tp_price_per_hour_usd p),
        tr_reliability = Some (tp_reliability p),
        tr_power_w = Some (tp_power_w p) \<rparr>]"

definition row_to_point :: "telemetry_row \<Rightarrow> telemetry_point" where
  "row_to_point r =
     \<lparr> tp_ts = tr_ts r,
       tp_resource_id = tr_resource_id r,
       tp_resource_type = tr_resource_type r,
       tp_cpu_util = or_default (tr_cpu_util r) 0,
       tp_mem_util = or_default (tr_mem_util r) 0,
       tp_gpu_util = or_default (tr_gpu_util r) 0,
       tp_net_rtt_ms = or_default (tr_net_rtt_ms r) 0,
       tp_net_bw_mbps = or_default (tr_net_bw_mbps r) 0,
       tp_price_per_hour_usd = or_default (tr_price_per_hour_usd r) 0,
       tp_reliability = or_default (tr_reliability r) 0.98,
       tp_power_w = or_default (tr_power_w r) 50 \<rparr>"

text \<open>
  The join of \<open>list_resources_latest\<close> keeps the rows whose \<open>ts\<close> is the greatest of their
  resource; \<open>ORDER BY resource_type, resource_id\<close> is modelled by a stable sort on the two
  texts (SQL leaves the order of equal keys open).
\<close>

definition is_latest :: "telemetry_row list \<Rightarrow> telemetry_row \<Rightarrow> bool" where
  "is_latest tbl r =
     list_all (\<lambda>r'. tr_ts r' \<le> tr_ts r) (filter (\<lambda>r'. tr_resource_id r' = tr_resource_id r) tbl)"

definition list_resources_latest :: "nat \<Rightarrow> telemetry_row list \<Rightarrow> resource_snapshot list" where
  "list_resources_latest limit tbl =
     map (\<lambda>r. let p = row_to_point r
              in \<lparr> rs_resource_id = tp_resource_id p, rs_resource_type = tp_resource_type p, rs_last = p \<rparr>)
       (take limit
          (sort_key (\<lambda>r. (resource_type_str (tr_resource_type r), tr_resource_id r))
             (filter (is_latest tbl) tbl)))"

definition latest_point :: "string \<Rightarrow> telemetry_row list \<Rightarrow> telemetry_point option" where
  "latest_point rid tbl =
     (case sort_key (\<lambda>r. - tr_ts r) (filter (\<lambda>r. tr_resource_id r = rid) tbl) of
        [] \<Rightarrow> None
      | r # _ \<Rightarrow> Some (row_to_point r))"

section \<open>Router (app/services/routing.py)\<close>

definition eligible :: "telemetry_point \<Rightarrow> job_request \<Rightarrow> bool" where
  "eligible t job =
     (if req_requires_gpu job \<and> tp_resource_type t \<noteq> Gpu then False
      else if or_float (tp_reliability t) 0 < 0.85 then False
      else True)"

text \<open>Python's \<open>max(xs, key=k)\<close> on a non-empty list: the first element of greatest key.\<close>

fun py_max_from :: "('a \<Rightarrow> real) \<Rightarrow> 'a \<Rightarrow> 'a list \<Rightarrow> 'a" where
  "py_max_from k best [] = best"
| "py_max_from k best (x # xs) = py_max_from k (if k x > k best then x else best) xs"

fun join_str :: "string \<Rightarrow> string list \<Rightarrow> string" where
  "join_str sep [] = []"
| "join_str sep [x] = x"
| "join_str sep (x # y # ys) = x @ sep @ join_str sep (y # ys)"

text \<open>The candidates of \<open>route\<close> after the three hint filters, in encounter order.\<close>

definition route_candidates :: "telemetry_row list \<Rightarrow> job_request \<Rightarrow> telemetry_point list" where
  "route_candidates tbl job =
     (let snapshots = list_resources_latest 500 tbl;
          candidates = map rs_last snapshots;
          h = req_hints job;
          force_type = force_resource_type h;
          force_id = force_resource_id h;
          exclude_ids = set (exclude_resource_ids h);
          c1 = (if exclude_resource_ids h \<noteq> []
                then filter (\<lambda>t. tp_resource_id t \<notin> exclude_ids) candidates else candidates);
          c2 = (case force_id of
                  None \<Rightarrow> c1
                | Some fid \<Rightarrow> if fid = [] then c1 else filter (\<lambda>t. tp_resource_id t = fid) c1);
          c3 = (case force_type of
                  None \<Rightarrow> c2
                | Some ft \<Rightarrow> if ft = [] then c2
                             else filter (\<lambda>t. resource_type_str (tp_resource_type t) = ft) c2)
      in c3)"

text \<open>The loop of \<open>route\<close>: every eligible candidate with its score.\<close>

definition route_scored ::
  "env \<Rightarrow> telemetry_row list \<Rightarrow> job_request \<Rightarrow> (telemetry_point \<times> score_breakdown) list" where
  "route_scored e tbl job =
     map (\<lambda>t. (t, score_resource e t job)) (filter (\<lambda>t. eligible t job) (route_candidates tbl job))"

definition route_ok ::
  "env \<Rightarrow> telemetry_row list \<Rightarrow> job_request \<Rightarrow> (telemetry_point \<times> score_breakdown) list" where
  "route_ok e tbl job = filter (\<lambda>tb. sb_sla_ok (snd tb)) (route_scored e tbl job)"

definition route_bad ::
  "env \<Rightarrow> telemetry_row list \<Rightarrow> job_request \<Rightarrow> (telemetry_point \<times> score_breakdown) list" where
  "route_bad e tbl job = filter (\<lambda>tb. \<not> sb_sla_ok (snd tb)) (route_scored e tbl job)"

definition considered_sorted ::
  "env \<Rightarrow> telemetry_row list \<Rightarrow> job_request \<Rightarrow> considered_item list" where
  "considered_sorted e tbl job =
     sort_key (\<lambda>x. - sb_effective_score (ci_score x))
       (map (\<lambda>tb. \<lparr> ci_resource_id = tp_resource_id (fst tb),
                    ci_resource_type = tp_resource_type (fst tb),
                    ci_score = snd tb \<rparr>) (route_scored e tbl job))"

definition route :: "env \<Rightarrow> telemetry_row list \<Rightarrow> job_request \<Rightarrow> route_decision" where
  "route e tbl job =
     (case route_ok e tbl job of
        x # xs \<Rightarrow>
          (let (t, b) = py_max_from (\<lambda>tb. sb_final_score (snd tb)) x xs
           in \<lparr> rd_job_id = req_job_id job,
                rd_chosen_resource_id = tp_resource_id t,
                rd_chosen_resource_type = tp_resource_type t,
                rd_considered = considered_sorted e tbl job,
                rd_explanation =
                  ''[SLA OK] Chose '' @ tp_resource_id t @ '' ('' @ resource_type_str (tp_resource_type t)
                  @ '') score='' @ env_fmt e ''.3f'' (sb_final_score b) @ ''. ''
                  @ ''Latency='' @ env_fmt e ''.0f'' (sb_latency_pred_ms b) @ ''ms, Cost=$''
                  @ env_fmt e ''.4f'' (sb_cost_pred_usd b) @ '', ''
                  @ ''Reliability='' @ env_fmt e ''.3f'' (sb_reliability b) @ '', Congestion=''
                  @ env_fmt e ''.2f'' (sb_congestion b) @ ''.'' \<rparr>)
      | [] \<Rightarrow>
          if \<not> req_allow_sla_fallback job then
            \<lparr> rd_job_id = req_job_id job,
              rd_chosen_resource_id = ''none'',
              rd_chosen_resource_type = Edge,
              rd_considered = considered_sorted e tbl job,
              rd_explanation =
                ''No SLA-compliant resources found. Dispatch blocked because allow_sla_fallback=false. ''
                @ ''Relax SLA or enable fallback.'' \<rparr>
          else
            (case route_bad e tbl job of
               y # ys \<Rightarrow>
                 (let (t, b) = py_max_from (\<lambda>tb. sb_effective_score (snd tb)) y ys
                  in \<lparr> rd_job_id = req_job_id job,
                       rd_chosen_resource_id = tp_resource_id t,
                       rd_chosen_resource_type = tp_resource_type t,
                       rd_considered = considered_sorted e tbl job,
                       rd_explanation =
                         ''[SLA FALLBACK] No SLA-compliant resources. Chose best-available ''
                         @ tp_resource_id t @ '' ('' @ resource_type_str (tp_resource_type t) @ '') ''
                         @ ''effective_score='' @ env_fmt e ''.3f'' (sb_effective_score b)
                         @ '' (raw='' @ env_fmt e ''.3f'' (sb_final_score b) @ ''). ''
                         @ ''SLA warnings: '' @ join_str ''; '' (sb_sla_violations b) \<rparr>)
             | [] \<Rightarrow>
                 \<lparr> rd_job_id = req_job_id job,
                   rd_chosen_resource_id = ''none'',
                   rd_chosen_resource_type = Edge,
                   rd_considered = considered_sorted e tbl job,
                   rd_explanation =
                     ''No eligible resources found (check telemetry + requires_gpu + reliability gates).'' \<rparr>))"

section \<open>Job store (app/services/storage.py)\<close>

datatype status = QUEUED | RUNNING | COMPLETED | FAILED | BLOCKED | CANCELLED

fun status_str :: "status \<Rightarrow> string" where
  "status_str QUEUED = ''QUEUED''"
| "status_str RUNNING = ''RUNNING''"
| "status_str COMPLETED = ''COMPLETED''"
| "status_str FAILED = ''FAILED''"
| "status_str BLOCKED = ''BLOCKED''"
| "status_str CANCELLED = ''CANCELLED''"

text \<open>
  The text stored in \<open>job_request_json\<close>, by what \<open>JobRequest.model_validate_json\<close> makes of
  it: the request it validates to, or a text that fails validation. \<open>model_dump_json\<close>
  writes a text that validates to the request it was written from.
\<close>

datatype request_json = ValidRequest job_request | InvalidRequest string

fun model_validate_json :: "request_json \<Rightarrow> job_request option" where
  "model_validate_json (ValidRequest r) = Some r"
| "model_validate_json (InvalidRequest _) = None"

definition model_dump_json :: "job_request \<Rightarrow> request_json" where
  "model_dump_json r = ValidRequest r"

text \<open>Truthiness of the stored text: the empty text is falsy.\<close>

fun json_truthy :: "request_json \<Rightarrow> bool" where
  "json_truthy (ValidRequest _) = True"
| "json_truthy (InvalidRequest txt) = (txt \<noteq> [])"

text \<open>The dictionary serialised into \<open>features_json\<close> by the worker.\<close>

record captured_features =
  cf_features :: features
  cf_allow_sla_fallback :: bool
  cf_sla_deadline_ms :: "int option"
  cf_sla_max_cost_usd :: "real option"
  cf_sla_min_reliability :: "real option"

text \<open>
  A row of the \<open>jobs\<close> table. The two Boolean columns are \<open>INTEGER\<close> 0/1 in the table;
  \<open>sla_violations_json\<close> is the list that is serialised.
\<close>

record job_row =
  job_id :: string
  job_type :: job_type
  urgency :: real
  payload_size_mb :: real
  requires_gpu :: bool
  allow_sla_fallback :: bool
  sla_deadline_ms :: "int option"
  sla_max_cost_usd :: "real option"
  sla_min_reliability :: "real option"
  job_request_json :: "request_json option"
  status :: status
  attempts :: int
  max_attempts :: int
  next_run_at :: "timestamp option"
  chosen_resource_id :: "string option"
  chosen_resource_type :: "resource_type option"
  worker_id :: "string option"
  created_at :: timestamp
  updated_at :: timestamp
  predicted_latency_ms :: "real option"
  predicted_cost_usd :: "real option"
  final_score :: "real option"
  sla_ok :: bool
  sla_violations_json :: "string list"
  actual_latency_ms :: "real option"
  actual_cost_usd :: "real option"
  output_ref :: "string option"
  features_json :: "captured_features option"
  latency_model_version :: "string option"
  cost_model_version :: "string option"

text \<open>A row of \<open>job_events\<close>; the free-text message column is left out.\<close>

record job_event =
  ev_ts :: timestamp
  ev_job_id :: string
  ev_event :: string

text \<open>A row of \<open>job_attempts\<close> (app/services/attempts.py).\<close>

record attempt_row =
  at_attempt_id :: string
  at_job_id :: string
  at_attempt_no :: int
  at_chosen_resource_id :: "string option"
  at_chosen_resource_type :: "resource_type option"
  at_started_at :: timestamp
  at_finished_at :: "timestamp option"
  at_status :: status
  at_predicted_latency_ms :: "real option"
  at_predicted_cost_usd :: "real option"
  at_final_score :: "real option"
  at_sla_ok :: bool
  at_sla_violations_json :: "string list"
  at_features_json :: "captured_features option"
  at_actual_latency_ms :: "real option"
  at_actual_cost_usd :: "real option"
  at_output_ref :: "string option"
  at_error_class :: "string option"
  at_error_message :: "string option"
  at_traceback :: "string option"
  at_rerouted_from_resource_id :: "string option"
  at_rerouted_to_resource_id :: "string option"

text \<open>
  The database: the four tables, each as the list of its rows in insertion order. Every
  operation below is one call of the source function on this state; all the clock reads of
  one call return the same instant \<open>now\<close>.
\<close>

record store =
  jobs :: "job_row list"
  job_events :: "job_event list"
  job_attempts :: "attempt_row list"
  telemetry :: "telemetry_row list"

definition get_job :: "string \<Rightarrow> store \<Rightarrow> job_row option" where
  "get_job jid s = find (\<lambda>r. job_id r = jid) (jobs s)"

text \<open>
  \<open>update_job(job_id, **fields)\<close>: the keyword arguments are the record update \<open>upd\<close>; no
  caller passes \<open>updated_at\<close>, so it is set to the current instant.
\<close>

definition update_job :: "string \<Rightarrow> (job_row \<Rightarrow> job_row) \<Rightarrow> timestamp \<Rightarrow> store \<Rightarrow> store" where
  "update_job jid upd now s =
     s\<lparr> jobs := map (\<lambda>r. if job_id r = jid then (upd r)\<lparr> updated_at := now \<rparr> else r) (jobs s) \<rparr>"

definition add_job_event :: "string \<Rightarrow> string \<Rightarrow> timestamp \<Rightarrow> store \<Rightarrow> store" where
  "add_job_event jid event now s =
     s\<lparr> job_events := job_events s @ [\<lparr> ev_ts = now, ev_job_id = jid, ev_event = event \<rparr>] \<rparr>"

text \<open>
  \<open>upsert_job\<close> with the key set \<open>submit_job\<close> passes: every column but the three added by
  \<open>_safe_add_column\<close>. On a conflict on \<open>job_id\<close> the listed columns are overwritten and the
  three others keep their values; otherwise a row is inserted with the three others \<open>NULL\<close>.
\<close>

definition upsert_job :: "job_row \<Rightarrow> store \<Rightarrow> store" where
  "upsert_job row s =
     (if \<exists>r \<in> set (jobs s). job_id r = job_id row
      then s\<lparr> jobs := map (\<lambda>r. if job_id r = job_id row
                                then row\<lparr> features_json := features_json r,
                                          latency_model_version := latency_model_version r,
                                          cost_model_version := cost_model_version r \<rparr>
                                else r) (jobs s) \<rparr>
      else s\<lparr> jobs := jobs s @ [row\<lparr> features_json := None, latency_model_version := None,
                                     cost_model_version := None \<rparr>] \<rparr>)"


subsection \<open>claim_next_job\<close>

definition claimable :: "timestamp \<Rightarrow> job_row \<Rightarrow> bool" where
  "claimable now r =
     (status r = QUEUED \<and> (case next_run_at r of None \<Rightarrow> True | Some t \<Rightarrow> t \<le> now))"

text \<open>The \<open>SELECT ... ORDER BY created_at ASC LIMIT 1\<close>.\<close>

definition claim_select :: "timestamp \<Rightarrow> store \<Rightarrow> job_row option" where
  "claim_select now s =
     (case sort_key created_at (filter (claimable now) (jobs s)) of
        [] \<Rightarrow> None
      | r # _ \<Rightarrow> Some r)"

definition claim_set :: "string \<Rightarrow> timestamp \<Rightarrow> job_row \<Rightarrow> job_row" where
  "claim_set w now r =
     r\<lparr> status := RUNNING, worker_id := Some w, updated_at := now,
        attempts := attempts r + 1, next_run_at := None \<rparr>"

text \<open>The conditional \<open>UPDATE ... WHERE job_id=? AND status='QUEUED'\<close>, with its row count.\<close>

definition claim_update :: "string \<Rightarrow> timestamp \<Rightarrow> string \<Rightarrow> store \<Rightarrow> nat \<times> store" where
  "claim_update w now jid s =
     (length (filter (\<lambda>r. job_id r = jid \<and> status r = QUEUED) (jobs s)),
      s\<lparr> jobs := map (\<lambda>r. if job_id r = jid \<and> status r = QUEUED then claim_set w now r else r)
                     (jobs s) \<rparr>)"

definition claim_next_job :: "string \<Rightarrow> timestamp \<Rightarrow> store \<Rightarrow> job_row option \<times> store" where
  "claim_next_job w now s =
     (case claim_select now s of
        None \<Rightarrow> (None, s)
      | Some row \<Rightarrow>
          (let (rowcount, s') = claim_update w now (job_id row) s
           in if rowcount \<noteq> 1 then (None, s') else (Some row, s')))"

section \<open>Job endpoints (app/routers/jobs.py)\<close>

datatype http_error = HTTPException int string

text \<open>The first item of \<open>decision.considered\<close> carrying the chosen resource id.\<close>

definition chosen_score_of :: "route_decision \<Rightarrow> score_breakdown option" where
  "chosen_score_of decision =
     map_option ci_score
       (find (\<lambda>item. ci_resource_id item = rd_chosen_resource_id decision) (rd_considered decision))"

definition submit_status :: "route_decision \<Rightarrow> status" where
  "submit_status decision = (if rd_chosen_resource_id decision = ''none'' then BLOCKED else QUEUED)"

definition submit_row :: "job_request \<Rightarrow> route_decision \<Rightarrow> timestamp \<Rightarrow> job_row" where
  "submit_row job decision now =
     (let chosen_score = chosen_score_of decision
      in \<lparr> job_id = req_job_id job,
           job_type = req_job_type job,
           urgency = req_urgency job,
           payload_size_mb = req_payload_size_mb job,
           requires_gpu = req_requires_gpu job,
           allow_sla_fallback = req_allow_sla_fallback job,
           sla_deadline_ms = deadline_ms (req_sla job),
           sla_max_cost_usd = max_cost_usd (req_sla job),
           sla_min_reliability = min_reliability (req_sla job),
           job_request_json = Some (model_dump_json job),
           status = submit_status decision,
           attempts = 0,
           max_attempts = 2,
           next_run_at = None,
           chosen_resource_id = Some (rd_chosen_resource_id decision),
           chosen_resource_type = Some (rd_chosen_resource_type decision),
           worker_id = None,
           created_at = now,
           updated_at = now,
           predicted_latency_ms = map_option sb_latency_pred_ms chosen_score,
           predicted_cost_usd = map_option sb_cost_pred_usd chosen_score,
           final_score = map_option sb_final_score chosen_score,
           sla_ok = (case chosen_score of Some b \<Rightarrow> sb_sla_ok b | None \<Rightarrow> False),
           sla_violations_json = (case chosen_score of Some b \<Rightarrow> sb_sla_violations b | None \<Rightarrow> []),
           actual_latency_ms = None,
           actual_cost_usd = None,
           output_ref = None,
           features_json = None,
           latency_model_version = None,
           cost_model_version = None \<rparr>)"

text \<open>\<open>submit_job\<close> returns the status and the decision of its response, and the new store.\<close>

definition submit_job ::
  "env \<Rightarrow> job_request \<Rightarrow> timestamp \<Rightarrow> store \<Rightarrow> (status \<times> route_decision) \<times> store" where
  "submit_job e job now s =
     (let decision = route e (telemetry s) job;
          row = submit_row job decision now;
          s1 = upsert_job row s;
          s2 = add_job_event (req_job_id job) ''SUBMITTED'' now s1
      in ((status row, decision), s2))"

text \<open>
  \<open>cancel_job\<close> and \<open>complete_job\<close>: \<open>Inl\<close> is the \<open>HTTPException\<close> raised (the store is then
  untouched), \<open>Inr\<close> the store after the \<open>{"ok": True}\<close> response.
\<close>

definition cancel_job :: "string \<Rightarrow> timestamp \<Rightarrow> store \<Rightarrow> http_error + store" where
  "cancel_job jid now s =
     (case get_job jid s of
        None \<Rightarrow> Inl (HTTPException 404 ''job_id not found'')
      | Some j \<Rightarrow>
          if status j = COMPLETED \<or> status j = FAILED
          then Inl (HTTPException 409 (''Cannot cancel job in status='' @ status_str (status j)))
          else Inr (add_job_event jid ''CANCELLED'' now
                      (update_job jid (\<lambda>r. r\<lparr> status := CANCELLED, worker_id := None \<rparr>) now s)))"

record complete_payload =
  cp_actual_latency_ms :: real
  cp_actual_cost_usd :: real
  cp_output_ref :: "string option"




section \<open>Attempt history (app/services/attempts.py)\<close>

text \<open>Python's \<open>int(x or d)\<close> on an integer column: zero is falsy.\<close>

definition or_int :: "int \<Rightarrow> int \<Rightarrow> int" where
  "or_int x d = (if x = 0 then d else x)"

text \<open>\<open>create_attempt\<close>; the fresh \<open>uuid4\<close> is the argument \<open>aid\<close>, which it returns.\<close>

definition create_attempt :: "job_row \<Rightarrow> string \<Rightarrow> timestamp \<Rightarrow> store \<Rightarrow> store" where
  "create_attempt job_row aid now s =
     s\<lparr> job_attempts := job_attempts s @
        [\<lparr> at_attempt_id = aid,
           at_job_id = job_id job_row,
           at_attempt_no = or_int (attempts job_row) 1,
           at_chosen_resource_id = chosen_resource_id job_row,
           at_chosen_resource_type = chosen_resource_type job_row,
           at_started_at = now,
           at_finished_at = None,
           at_status = RUNNING,
           at_predicted_latency_ms = predicted_latency_ms job_row,
           at_predicted_cost_usd = predicted_cost_usd job_row,
           at_final_score = final_score job_row,
           at_sla_ok = sla_ok job_row,
           at_sla_violations_json = sla_violations_json job_row,
           at_features_json = features_json job_row,
           at_actual_latency_ms = None,
           at_actual_cost_usd = None,
           at_output_ref = None,
           at_error_class = None,
           at_error_message = None,
           at_traceback = None,
           at_rerouted_from_resource_id = None,
           at_rerouted_to_resource_id = None \<rparr>] \<rparr>"

definition update_attempt :: "string \<Rightarrow> (attempt_row \<Rightarrow> attempt_row) \<Rightarrow> store \<Rightarrow> store" where
  "update_attempt aid upd s =
     s\<lparr> job_attempts := map (\<lambda>a. if at_attempt_id a = aid then upd a else a) (job_attempts s) \<rparr>"

definition update_attempt_features :: "string \<Rightarrow> captured_features \<Rightarrow> store \<Rightarrow> store" where
  "update_attempt_features aid feats s = update_attempt aid (\<lambda>a. a\<lparr> at_features_json := Some feats \<rparr>) s"

definition mark_attempt_reroute :: "string \<Rightarrow> string option \<Rightarrow> string option \<Rightarrow> store \<Rightarrow> store" where
  "mark_attempt_reroute aid from_id to_id s =
     update_attempt aid
       (\<lambda>a. a\<lparr> at_rerouted_from_resource_id := from_id, at_rerouted_to_resource_id := to_id \<rparr>) s"

definition finish_attempt_success ::
  "string \<Rightarrow> real \<Rightarrow> real \<Rightarrow> string option \<Rightarrow> timestamp \<Rightarrow> store \<Rightarrow> store" where
  "finish_attempt_success aid lat cost out now s =
     update_attempt aid
       (\<lambda>a. a\<lparr> at_finished_at := Some now, at_status := COMPLETED,
               at_actual_latency_ms := Some lat, at_actual_cost_usd := Some cost,
               at_output_ref := out \<rparr>) s"

definition finish_attempt_failure ::
  "string \<Rightarrow> string \<Rightarrow> string \<Rightarrow> string \<Rightarrow> timestamp \<Rightarrow> store \<Rightarrow> store" where
  "finish_attempt_failure aid error_class error_message traceback_str now s =
     update_attempt aid
       (\<lambda>a. a\<lparr> at_finished_at := Some now, at_status := FAILED,
               at_error_class := Some error_class, at_error_message := Some error_message,
               at_traceback := Some traceback_str \<rparr>) s"

section \<open>Dispatcher (app/services/dispatcher.py)\<close>

record dispatch_result =
  dr_actual_latency_ms :: real
  dr_actual_cost_usd :: real
  dr_output_ref :: "string option"

text \<open>
  What \<open>dispatch\<close> raises: its own forced failure, or whatever the execution adapter raised
  (exception class and message).
\<close>

datatype dispatch_exn = ForcedFailFirst | AdapterError string string

fun exn_class :: "dispatch_exn \<Rightarrow> string" where
  "exn_class ForcedFailFirst = ''RuntimeError''"
| "exn_class (AdapterError c m) = c"

fun exn_message :: "dispatch_exn \<Rightarrow> string" where
  "exn_message ForcedFailFirst = ''FORCED_FAIL_FIRST: testing reroute + retry''"
| "exn_message (AdapterError c m) = m"

text \<open>
  The execution adapters (simulated with random noise, or a remote call) are outside the
  model: \<open>adapter rtype row\<close> is the outcome of \<open>get_adapter_for(rtype).run(row)\<close>.
\<close>

type_synonym adapter = "resource_type \<Rightarrow> job_row \<Rightarrow> (string \<times> string) + dispatch_result"

definition stored_request :: "job_row \<Rightarrow> job_request option" where
  "stored_request row =
     (case job_request_json row of
        None \<Rightarrow> None
      | Some jr \<Rightarrow> if json_truthy jr then model_validate_json jr else None)"

definition run_adapter :: "adapter \<Rightarrow> job_row \<Rightarrow> dispatch_exn + dispatch_result" where
  "run_adapter ad row =
     (let rtype = (case chosen_resource_type row of None \<Rightarrow> Edge | Some t \<Rightarrow> t)
      in case ad rtype row of
           Inl (c, m) \<Rightarrow> Inl (AdapterError c m)
         | Inr res \<Rightarrow> Inr res)"

definition dispatch :: "adapter \<Rightarrow> job_row \<Rightarrow> dispatch_exn + dispatch_result" where
  "dispatch ad row =
     (let attempts_now = or_int (attempts row) 0;
          req = stored_request row
      in case req of
           Some r \<Rightarrow>
             if force_fail_first (req_hints r) \<and> attempts_now = 1 then Inl ForcedFailFirst
             else run_adapter ad row
         | None \<Rightarrow> run_adapter ad row)"

section \<open>Worker loop (worker.py)\<close>

record worker_cfg =
  WORKER_ID :: string
  REROUTE_ON_RETRY :: bool
  format_exc :: "dispatch_exn \<Rightarrow> string"

text \<open>\<open>_backoff_iso\<close>: the delay is in seconds, the instants in microseconds.\<close>

definition backoff_delay :: "int \<Rightarrow> int" where
  "backoff_delay n = min 60 (2 ^ nat (max 1 n))"

definition backoff_iso :: "int \<Rightarrow> timestamp \<Rightarrow> timestamp" where
  "backoff_iso n now = now + 1000000 * backoff_delay n"

text \<open>\<open>list(dict.fromkeys(ex))\<close>: duplicates dropped, first occurrences kept in order.\<close>

fun fromkeys_acc :: "string list \<Rightarrow> string list \<Rightarrow> string list" where
  "fromkeys_acc acc [] = acc"
| "fromkeys_acc acc (x # xs) = fromkeys_acc (if x \<in> set acc then acc else acc @ [x]) xs"

definition dict_fromkeys :: "string list \<Rightarrow> string list" where
  "dict_fromkeys xs = fromkeys_acc [] xs"

text \<open>
  The request both reroute paths hand to the router: the stored request with the current
  resource appended to \<open>exclude_resource_ids\<close>.
\<close>

definition exclude_current :: "job_request \<Rightarrow> string option \<Rightarrow> job_request" where
  "exclude_current job_req cur =
     (let h = req_hints job_req;
          ex = exclude_resource_ids h;
          ex' = (case cur of
                   None \<Rightarrow> ex
                 | Some c \<Rightarrow> if c \<noteq> [] \<and> c \<noteq> ''none'' then ex @ [c] else ex)
      in job_req\<lparr> req_hints := h\<lparr> exclude_resource_ids := dict_fromkeys ex' \<rparr> \<rparr>)"

text \<open>The columns \<open>_reroute_job\<close> writes with the new decision.\<close>

definition reroute_fields :: "route_decision \<Rightarrow> job_row \<Rightarrow> job_row" where
  "reroute_fields decision r =
     (let chosen_score = chosen_score_of decision
      in r\<lparr> chosen_resource_id := Some (rd_chosen_resource_id decision),
             chosen_resource_type := Some (rd_chosen_resource_type decision),
             predicted_latency_ms := map_option sb_latency_pred_ms chosen_score,
             predicted_cost_usd := map_option sb_cost_pred_usd chosen_score,
             final_score := map_option sb_final_score chosen_score,
             sla_ok := (case chosen_score of Some b \<Rightarrow> sb_sla_ok b | None \<Rightarrow> False),
             sla_violations_json :=
               (case chosen_score of Some b \<Rightarrow> sb_sla_violations b | None \<Rightarrow> []) \<rparr>)"

definition reroute_job :: "env \<Rightarrow> job_row \<Rightarrow> string \<Rightarrow> timestamp \<Rightarrow> store \<Rightarrow> bool \<times> store" where
  "reroute_job e latest aid now s =
     (case job_request_json latest of
        None \<Rightarrow> (False, s)
      | Some jr \<Rightarrow>
          if \<not> json_truthy jr then (False, s)
          else (case model_validate_json jr of
             None \<Rightarrow> (False, add_job_event (job_id latest) ''REROUTE_ERROR'' now s)
           | Some job_req \<Rightarrow>
               (let cur = chosen_resource_id latest;
                    decision = route e (telemetry s) (exclude_current job_req cur)
                in if rd_chosen_resource_id decision = ''none''
                   then (False, add_job_event (job_id latest) ''REROUTE_FAILED'' now s)
                   else
                     (let s1 = update_job (job_id latest) (reroute_fields decision) now s;
                          s2 = add_job_event (job_id latest) ''REROUTED'' now s1;
                          s3 = mark_attempt_reroute aid cur (Some (rd_chosen_resource_id decision)) s2
                      in (True, s3)))))"

text \<open>The feature capture between the claim and the dispatch.\<close>

definition capture_features :: "string \<Rightarrow> job_row \<Rightarrow> string \<Rightarrow> timestamp \<Rightarrow> store \<Rightarrow> store" where
  "capture_features jid latest aid now s =
     (let job_req = stored_request latest;
          tel = (case chosen_resource_id latest of
                   None \<Rightarrow> None
                 | Some rid \<Rightarrow> if rid \<noteq> [] \<and> rid \<noteq> ''none'' then latest_point rid (telemetry s) else None)
      in case (job_req, tel) of
           (Some jr, Some t) \<Rightarrow>
             (let feats = \<lparr> cf_features = build_features t jr,
                           cf_allow_sla_fallback = req_allow_sla_fallback jr,
                           cf_sla_deadline_ms = deadline_ms (req_sla jr),
                           cf_sla_max_cost_usd = max_cost_usd (req_sla jr),
                           cf_sla_min_reliability = min_reliability (req_sla jr) \<rparr>;
                  s1 = update_job jid (\<lambda>r. r\<lparr> features_json := Some feats \<rparr>) now s;
                  s2 = update_attempt_features aid feats s1
              in add_job_event jid ''FEATURES_CAPTURED'' now s2)
         | _ \<Rightarrow> add_job_event jid ''FEATURES_SKIPPED'' now s)"

text \<open>The \<open>try\<close> branch after a dispatch that returned.\<close>

definition on_dispatch_success ::
  "worker_cfg \<Rightarrow> string \<Rightarrow> string \<Rightarrow> dispatch_result \<Rightarrow> timestamp \<Rightarrow> store \<Rightarrow> store" where
  "on_dispatch_success cfg jid aid res now s =
     (let s1 = update_job jid
                 (\<lambda>r. r\<lparr> status := COMPLETED,
                         actual_latency_ms := Some (dr_actual_latency_ms res),
                         actual_cost_usd := Some (dr_actual_cost_usd res),
                         output_ref := dr_output_ref res,
                         worker_id := Some (WORKER_ID cfg) \<rparr>) now s;
          s2 = finish_attempt_success aid (dr_actual_latency_ms res) (dr_actual_cost_usd res)
                 (dr_output_ref res) now s1
      in add_job_event jid ''COMPLETED'' now s2)"

text \<open>
  The \<open>except\<close> branch after a dispatch that raised \<open>ex\<close>; \<open>latest\<close> is the row read before
  the dispatch, \<open>s\<close> the store as the worker finds it afterwards.
\<close>

definition retry_counters :: "job_row \<Rightarrow> int \<times> int" where
  "retry_counters latest2 = (or_int (attempts latest2) 1, or_int (max_attempts latest2) 2)"

definition on_dispatch_failure ::
  "worker_cfg \<Rightarrow> env \<Rightarrow> string \<Rightarrow> job_row \<Rightarrow> string \<Rightarrow> dispatch_exn \<Rightarrow> timestamp \<Rightarrow> store \<Rightarrow> store" where
  "on_dispatch_failure cfg e jid latest aid ex now s =
     (let tb = format_exc cfg ex;
          s1 = finish_attempt_failure aid (exn_class ex) (exn_message ex) tb now s;
          latest2 = (case get_job jid s1 of Some r \<Rightarrow> r | None \<Rightarrow> latest);
          (attempts_now, max_attempts_now) = retry_counters latest2;
          s2 = (if REROUTE_ON_RETRY cfg \<and> attempts_now < max_attempts_now
                then snd (reroute_job e latest2 aid now s1) else s1)
      in if attempts_now < max_attempts_now
         then add_job_event jid ''RETRY'' now
                (update_job jid
                   (\<lambda>r. r\<lparr> status := QUEUED, next_run_at := Some (backoff_iso attempts_now now),
                           worker_id := None \<rparr>) now s2)
         else add_job_event jid ''FAILED'' now
                (update_job jid (\<lambda>r. r\<lparr> status := FAILED, worker_id := Some (WORKER_ID cfg) \<rparr>) now s2))"

text \<open>
  One pass of the body of the worker's loop, run with no other writer in between; \<open>aid\<close> is
  the fresh attempt id. A pass that finds no job only sleeps.
\<close>

definition worker_iteration ::
  "worker_cfg \<Rightarrow> env \<Rightarrow> adapter \<Rightarrow> string \<Rightarrow> timestamp \<Rightarrow> store \<Rightarrow> store" where
  "worker_iteration cfg e ad aid now s =
     (case claim_next_job (WORKER_ID cfg) now s of
        (None, s1) \<Rightarrow> s1
      | (Some job, s1) \<Rightarrow>
          (let jid = job_id job;
               latest = (case get_job jid s1 of Some r \<Rightarrow> r | None \<Rightarrow> job)
           in if status latest = CANCELLED then add_job_event jid ''SKIPPED'' now s1
              else
                (let s2 = create_attempt latest aid now s1;
                     s3 = add_job_event jid ''RUNNING'' now s2;
                     s4 = capture_features jid latest aid now s3
                 in case dispatch ad latest of
                      Inr res \<Rightarrow> on_dispatch_success cfg jid aid res now s4
                    | Inl ex \<Rightarrow> on_dispatch_failure cfg e jid latest aid ex now s4)))"

section \<open>SLA monitor (scripts/sla_monitor.py)\<close>







section \<open>Properties named by the specification\<close>

text \<open>The three SLA bounds, as the specification words them: an absent bound is never exceeded.\<close>
definition deadline_exceeded :: "job_request \<Rightarrow> real \<Rightarrow> bool" where
  "deadline_exceeded job latency_p90 =
     (case deadline_ms (req_sla job) of None \<Rightarrow> False | Some d \<Rightarrow> latency_p90 > real_of_int d)"

definition max_cost_exceeded :: "job_request \<Rightarrow> real \<Rightarrow> bool" where
  "max_cost_exceeded job cost_p90 =
     (case max_cost_usd (req_sla job) of None \<Rightarrow> False | Some c \<Rightarrow> cost_p90 > c)"

definition min_reliability_missed :: "job_request \<Rightarrow> real \<Rightarrow> bool" where
  "min_reliability_missed job reliability =
     (case min_reliability (req_sla job) of None \<Rightarrow> False | Some r \<Rightarrow> reliability < r)"





section \<open>A concrete configuration\<close>

text \<open>
  The environment of a fresh checkout: no YAML overrides and no model files, so both
  predictors take their analytic branch; every number inside a message is rendered as a
  placeholder.
\<close>

definition default_env :: env where
  "default_env =
     \<lparr> cfg_normalization_bounds = (\<lambda>_. None),
       cfg_scoring_weights = (\<lambda>_. None),
       env_predict_latency = predict_latency_fallback,
       env_predict_cost = predict_cost_fallback,
       env_fmt = (\<lambda>spec x. ''#''),
       env_str_real = (\<lambda>x. ''#''),
       env_str_int = (\<lambda>x. ''#'') \<rparr>"

definition point :: "string \<Rightarrow> resource_type \<Rightarrow> real \<Rightarrow> real \<Rightarrow> telemetry_point" where
  "point rid rt rtt rel =
     \<lparr> tp_ts = 0, tp_resource_id = rid, tp_resource_type = rt, tp_cpu_util = 0.5, tp_mem_util = 0.5,
       tp_gpu_util = 0, tp_net_rtt_ms = rtt, tp_net_bw_mbps = 100, tp_price_per_hour_usd = 0.36,
       tp_reliability = rel, tp_power_w = 50 \<rparr>"

definition no_hints :: hints where
  "no_hints = \<lparr> force_resource_type = None, force_resource_id = None,
                exclude_resource_ids = [], force_fail_first = False \<rparr>"

definition job_with :: "string \<Rightarrow> sla \<Rightarrow> hints \<Rightarrow> bool \<Rightarrow> job_request" where
  "job_with jid sl h fb =
     \<lparr> req_job_id = jid, req_job_type = Batch, req_urgency = 0.5, req_payload_size_mb = 0,
       req_requires_gpu = False, req_allow_sla_fallback = fb, req_sla = sl, req_hints = h \<rparr>"

definition no_sla :: sla where
  "no_sla = \<lparr> deadline_ms = None, max_cost_usd = None, min_reliability = None \<rparr>"

definition tight_sla :: sla where
  "tight_sla = \<lparr> deadline_ms = Some 0, max_cost_usd = Some 1, min_reliability = Some 0.9 \<rparr>"

definition excluding :: "string list \<Rightarrow> hints" where
  "excluding ids = \<lparr> force_resource_type = None, force_resource_id = None,
                     exclude_resource_ids = ids, force_fail_first = False \<rparr>"

text \<open>Three edge resources with the same telemetry, inserted out of order.\<close>

definition tie_tbl :: "telemetry_row list" where
  "tie_tbl = insert_point (point ''a'' Edge 50 0.99)
               (insert_point (point ''c'' Edge 50 0.99)
                  (insert_point (point ''b'' Edge 50 0.99) []))"

text \<open>A store holding the given jobs and telemetry, with no events and no attempts yet.\<close>

definition store_of :: "job_row list \<Rightarrow> telemetry_row list \<Rightarrow> store" where
  "store_of js tbl = \<lparr> jobs = js, job_events = [], job_attempts = [], telemetry = tbl \<rparr>"

definition one_edge :: "telemetry_row list" where
  "one_edge = insert_point (point ''a'' Edge 50 0.99) []"

text \<open>
  A job row as \<open>submit_job\<close> writes it for the request \<open>req\<close> routed to the edge resource
  \<open>a\<close>, then moved to the given status, attempt count, creation instant and backoff gate.
\<close>

definition job_at :: "job_request \<Rightarrow> status \<Rightarrow> int \<Rightarrow> timestamp \<Rightarrow> timestamp option \<Rightarrow> job_row" where
  "job_at req st n created nra =
     \<lparr> job_id = req_job_id req,
       job_type = req_job_type req,
       urgency = req_urgency req,
       payload_size_mb = req_payload_size_mb req,
       requires_gpu = req_requires_gpu req,
       allow_sla_fallback = req_allow_sla_fallback req,
       sla_deadline_ms = deadline_ms (req_sla req),
       sla_max_cost_usd = max_cost_usd (req_sla req),
       sla_min_reliability = min_reliability (req_sla req),
       job_request_json = Some (model_dump_json req),
       status = st,
       attempts = n,
       max_attempts = 2,
       next_run_at = nra,
       chosen_resource_id = Some ''a'',
       chosen_resource_type = Some Edge,
       worker_id = None,
       created_at = created,
       updated_at = created,
       predicted_latency_ms = None,
       predicted_cost_usd = None,
       final_score = None,
       sla_ok = True,
       sla_violations_json = [],
       actual_latency_ms = None,
       actual_cost_usd = None,
       output_ref = None,
       features_json = None,
       latency_model_version = None,
       cost_model_version = None \<rparr>"

definition plain_job :: "string \<Rightarrow> job_request" where
  "plain_job jid = job_with jid no_sla no_hints True"

text \<open>Three queued jobs: the oldest is still behind its backoff gate at instant 50.\<close>

definition queue3 :: store where
  "queue3 = store_of
     [job_at (plain_job ''j1'') QUEUED 1 10 (Some 100),
      job_at (plain_job ''j2'') QUEUED 0 30 None,
      job_at (plain_job ''j3'') QUEUED 0 20 (Some 40)] one_edge"

text \<open>A store with one job in the given status, after \<open>n\<close> attempts.\<close>

definition one_job :: "status \<Rightarrow> int \<Rightarrow> store" where
  "one_job st n = store_of [job_at (plain_job ''j1'') st n 10 None] one_edge"

definition payload :: complete_payload where
  "payload = \<lparr> cp_actual_latency_ms = 120, cp_actual_cost_usd = 0.01, cp_output_ref = Some ''manual'' \<rparr>"

text \<open>A finished job next to a queued one.\<close>

definition done_and_queued :: store where
  "done_and_queued = store_of
     [job_at (plain_job ''j1'') COMPLETED 1 10 None,
      job_at (plain_job ''j2'') QUEUED 0 20 None] one_edge"


definition result1 :: dispatch_result where
  "result1 = \<lparr> dr_actual_latency_ms = 100, dr_actual_cost_usd = 0.01, dr_output_ref = Some ''sim://j1'' \<rparr>"


definition fail_first :: hints where
  "fail_first = \<lparr> force_resource_type = None, force_resource_id = None,
                  exclude_resource_ids = [], force_fail_first = True \<rparr>"

text \<open>An execution adapter that always returns the same result.\<close>

definition sim_adapter :: adapter where
  "sim_adapter = (\<lambda>rtype row. Inr result1)"






text \<open>
  A stored payload that carries the hint but does not validate as a \<open>JobRequest\<close>: the
  required field \<open>payload_size_mb\<close> is missing.
\<close>

definition masked_payload :: request_json where
  "masked_payload = InvalidRequest
     ''{\"job_id\": \"j1\", \"job_type\": \"batch\", \"urgency\": 0.5, \"hints\": {\"force_fail_first\": true}}''"

definition masked_row :: "int \<Rightarrow> job_row" where
  "masked_row n = (job_at (job_with ''j1'' no_sla fail_first True) RUNNING n 10 None)
                    \<lparr> job_request_json := Some masked_payload \<rparr>"

section \<open>Verified properties\<close>

lemmas eval_defs = default_env_def point_def job_with_def no_hints_def no_sla_def tight_sla_def
  latency_of_def cost_of_def build_features_def compute_congestion_def predict_latency_fallback_def
  predict_cost_fallback_def base_cost_def or_float_def Let_def


subsection \<open>Scorer\<close>

lemma msgs_distinct:
  "deadline_msg e a b \<noteq> max_cost_msg e c d"
  "deadline_msg e a b \<noteq> min_reliability_msg e c' d'"
  "max_cost_msg e c d \<noteq> min_reliability_msg e c' d'"
  "max_cost_msg e c d \<noteq> deadline_msg e a b"
  "min_reliability_msg e c' d' \<noteq> deadline_msg e a b"
  "min_reliability_msg e c' d' \<noteq> max_cost_msg e c d"
  by (simp_all add: deadline_msg_def max_cost_msg_def min_reliability_msg_def)

lemma sla_check_length:
  "length (sla_check e job l c r) =
     (if deadline_exceeded job l then 1 else 0) + (if max_cost_exceeded job c then 1 else 0)
     + (if min_reliability_missed job r then 1 else 0)"
  by (simp add: sla_check_def deadline_exceeded_def max_cost_exceeded_def
      min_reliability_missed_def split: option.splits)

lemma sla_check_distinct: "distinct (sla_check e job l c r)"
  by (simp add: sla_check_def msgs_distinct split: option.splits)

lemma sla_check_deadline:
  "deadline_ms (req_sla job) = Some d \<Longrightarrow>
     deadline_msg e l d \<in> set (sla_check e job l c r) \<longleftrightarrow> l > real_of_int d"
  by (auto simp add: sla_check_def msgs_distinct split: option.splits)

lemma sla_check_max_cost:
  "max_cost_usd (req_sla job) = Some m \<Longrightarrow>
     max_cost_msg e c m \<in> set (sla_check e job l c r) \<longleftrightarrow> c > m"
  by (auto simp add: sla_check_def msgs_distinct split: option.splits)

lemma sla_check_min_reliability:
  "min_reliability (req_sla job) = Some m \<Longrightarrow>
     min_reliability_msg e r m \<in> set (sla_check e job l c r) \<longleftrightarrow> r < m"
  by (auto simp add: sla_check_def msgs_distinct split: option.splits)

lemma score_resource_violations:
  "sb_sla_violations (score_resource e t job) =
     sla_check e job (snd (latency_of e t job)) (snd (cost_of e t job)) (or_float (tp_reliability t) 0.98)"
  by (simp add: score_resource_def Let_def split: prod.splits)

lemma score_resource_reliability:
  "sb_reliability (score_resource e t job) = or_float (tp_reliability t) 0.98"
  by (simp add: score_resource_def Let_def split: prod.splits)

lemma score_resource_sla_ok:
  "sb_sla_ok (score_resource e t job) \<longleftrightarrow> sb_sla_violations (score_resource e t job) = []"
  by (simp add: score_resource_def Let_def split: prod.splits)

lemma score_resource_effective:
  "sb_effective_score (score_resource e t job) =
     sb_final_score (score_resource e t job)
     - 0.35 * real (length (sb_sla_violations (score_resource e t job)))"
  by (simp add: score_resource_def Let_def split: prod.splits)

text \<open>
  C5. For every snapshot and job, \<open>score_resource\<close> records one violation message per SLA
  bound exceeded by the conservative estimates (p90 latency above \<open>deadline_ms\<close>, p90 cost
  above \<open>max_cost_usd\<close>, reliability below \<open>min_reliability\<close>), an absent bound being
  skipped; the three kinds of message are distinct; \<open>sla_ok\<close> holds exactly when the list is
  empty; and the effective score is the final score minus 0.35 per violation.
\<close>

theorem score_resource_sla:
  "length (sb_sla_violations (score_resource e t job)) =
       (if deadline_exceeded job (snd (latency_of e t job)) then 1 else 0)
     + (if max_cost_exceeded job (snd (cost_of e t job)) then 1 else 0)
     + (if min_reliability_missed job (sb_reliability (score_resource e t job)) then 1 else 0)
   \<and> distinct (sb_sla_violations (score_resource e t job))
   \<and> (\<forall>d. deadline_ms (req_sla job) = Some d \<longrightarrow>
          (deadline_msg e (snd (latency_of e t job)) d \<in> set (sb_sla_violations (score_resource e t job))
           \<longleftrightarrow> snd (latency_of e t job) > real_of_int d))
   \<and> (\<forall>c. max_cost_usd (req_sla job) = Some c \<longrightarrow>
          (max_cost_msg e (snd (cost_of e t job)) c \<in> set (sb_sla_violations (score_resource e t job))
           \<longleftrightarrow> snd (cost_of e t job) > c))
   \<and> (\<forall>r. min_reliability (req_sla job) = Some r \<longrightarrow>
          (min_reliability_msg e (sb_reliability (score_resource e t job)) r
             \<in> set (sb_sla_violations (score_resource e t job))
           \<longleftrightarrow> sb_reliability (score_resource e t job) < r))
   \<and> deadline_msg e l1 d1 \<noteq> max_cost_msg e c2 m2
   \<and> deadline_msg e l1 d1 \<noteq> min_reliability_msg e r3 m3
   \<and> max_cost_msg e c2 m2 \<noteq> min_reliability_msg e r3 m3
   \<and> (sb_sla_ok (score_resource e t job) \<longleftrightarrow> sb_sla_violations (score_resource e t job) = [])
   \<and> sb_effective_score (score_resource e t job) =
       sb_final_score (score_resource e t job)
       - 0.35 * real (length (sb_sla_violations (score_resource e t job)))"
  unfolding score_resource_reliability score_resource_violations
  using sla_check_length sla_check_distinct sla_check_deadline sla_check_max_cost
    sla_check_min_reliability msgs_distinct score_resource_sla_ok score_resource_effective
  unfolding score_resource_violations
  by (intro conjI allI impI) auto


theorem score_resource_sla_witness:
  "deadline_ms (req_sla (job_with ''j1'' tight_sla no_hints True)) = Some 0
   \<and> snd (latency_of default_env (point ''edge-1'' Edge 50 0.99) (job_with ''j1'' tight_sla no_hints True)) = 375
   \<and> length (sb_sla_violations (score_resource default_env (point ''edge-1'' Edge 50 0.99)
        (job_with ''j1'' tight_sla no_hints True))) = 1
   \<and> deadline_msg default_env 375 0 \<in> set (sb_sla_violations (score_resource default_env
        (point ''edge-1'' Edge 50 0.99) (job_with ''j1'' tight_sla no_hints True)))
   \<and> \<not> sb_sla_ok (score_resource default_env (point ''edge-1'' Edge 50 0.99)
        (job_with ''j1'' tight_sla no_hints True))
   \<and> sb_effective_score (score_resource default_env (point ''edge-1'' Edge 50 0.99)
        (job_with ''j1'' tight_sla no_hints True))
      = sb_final_score (score_resource default_env (point ''edge-1'' Edge 50 0.99)
        (job_with ''j1'' tight_sla no_hints True)) - 0.35"
proof -
  let ?e = default_env and ?t = "point ''edge-1'' Edge 50 0.99"
    and ?j = "job_with ''j1'' tight_sla no_hints True"
  let ?v = "sb_sla_violations (score_resource ?e ?t ?j)"
  note T = score_resource_sla[of ?e ?t ?j]
  have d: "deadline_ms (req_sla ?j) = Some 0" by (simp add: job_with_def tight_sla_def)
  have l: "snd (latency_of ?e ?t ?j) = 375" by (simp add: eval_defs)
  have c: "snd (cost_of ?e ?t ?j) \<le> 1" by (simp add: eval_defs)
  have r: "sb_reliability (score_resource ?e ?t ?j) = 0.99"
    by (simp add: score_resource_reliability point_def or_float_def)
  have x1: "deadline_exceeded ?j (snd (latency_of ?e ?t ?j))"
    unfolding l by (simp add: deadline_exceeded_def job_with_def tight_sla_def)
  have x2: "\<not> max_cost_exceeded ?j (snd (cost_of ?e ?t ?j))"
    using c by (simp add: max_cost_exceeded_def job_with_def tight_sla_def)
  have x3: "\<not> min_reliability_missed ?j (sb_reliability (score_resource ?e ?t ?j))"
    unfolding r by (simp add: min_reliability_missed_def job_with_def tight_sla_def)
  have len: "length ?v = 1" using T x1 x2 x3 by simp
  have "deadline_msg ?e (snd (latency_of ?e ?t ?j)) 0 \<in> set ?v \<longleftrightarrow>
          snd (latency_of ?e ?t ?j) > real_of_int 0"
    using T d by blast
  then have m: "deadline_msg ?e 375 0 \<in> set ?v" unfolding l by simp
  have ok: "\<not> sb_sla_ok (score_resource ?e ?t ?j)" using T len by auto
  have eff: "sb_effective_score (score_resource ?e ?t ?j)
      = sb_final_score (score_resource ?e ?t ?j) - 0.35" using T len by simp
  from d l len m ok eff show ?thesis by blast
qed

subsection \<open>Router\<close>

lemma py_max_from_split:
  "\<exists>pre post. best # xs = pre @ py_max_from k best xs # post
     \<and> (\<forall>y\<in>set pre. k y < k (py_max_from k best xs))
     \<and> (\<forall>y\<in>set post. k y \<le> k (py_max_from k best xs))"
proof (induction xs arbitrary: best)
  case Nil
  show ?case by (rule exI[of _ "[]"], rule exI[of _ "[]"]) simp
next
  case (Cons x xs)
  show ?case
  proof (cases "k x > k best")
    case True
    from Cons.IH[of x] obtain pre post where
      s: "x # xs = pre @ py_max_from k x xs # post"
      and p: "\<forall>y\<in>set pre. k y < k (py_max_from k x xs)"
      and q: "\<forall>y\<in>set post. k y \<le> k (py_max_from k x xs)" by blast
    have "x \<in> set (pre @ py_max_from k x xs # post)" using s by (metis list.set_intros(1))
    then have kx: "k x \<le> k (py_max_from k x xs)" using p q by auto
    have "best # x # xs = (best # pre) @ py_max_from k x xs # post" using s by simp
    moreover have "\<forall>y\<in>set (best # pre). k y < k (py_max_from k x xs)" using p kx True by auto
    ultimately show ?thesis using q True by (metis py_max_from.simps(2))
  next
    case False
    from Cons.IH[of best] obtain pre post where
      s: "best # xs = pre @ py_max_from k best xs # post"
      and p: "\<forall>y\<in>set pre. k y < k (py_max_from k best xs)"
      and q: "\<forall>y\<in>set post. k y \<le> k (py_max_from k best xs)" by blast
    have m: "py_max_from k best (x # xs) = py_max_from k best xs" using False by simp
    show ?thesis
    proof (cases pre)
      case Nil
      then have b: "py_max_from k best xs = best" and po: "post = xs" using s by auto
      have "best # x # xs = [] @ best # (x # xs)" by simp
      moreover have "\<forall>y\<in>set (x # xs). k y \<le> k best" using q po b False by auto
      ultimately show ?thesis unfolding m b by (metis empty_iff empty_set)
    next
      case (Cons a pre')
      then have a: "a = best" and xs: "xs = pre' @ py_max_from k best xs # post" using s by auto
      have kb: "k best < k (py_max_from k best xs)" using p Cons a by auto
      have "best # x # xs = (best # x # pre') @ py_max_from k best xs # post" using xs by simp
      moreover have "\<forall>y\<in>set (best # x # pre'). k y < k (py_max_from k best xs)"
        using p Cons a kb False by auto
      ultimately show ?thesis unfolding m using q by blast
    qed
  qed
qed

lemma route_candidates_not_excluded:
  "t \<in> set (route_candidates tbl job) \<Longrightarrow>
     tp_resource_id t \<notin> set (exclude_resource_ids (req_hints job))"
  by (auto simp add: route_candidates_def Let_def split: option.splits if_splits)

lemma route_scored_member:
  "(t, b) \<in> set (route_scored e tbl job) \<Longrightarrow>
     t \<in> set (route_candidates tbl job) \<and> eligible t job \<and> b = score_resource e t job"
  by (auto simp add: route_scored_def)

lemma route_ok_chosen:
  "route_ok e tbl job = x # xs \<Longrightarrow>
     rd_chosen_resource_id (route e tbl job)
       = tp_resource_id (fst (py_max_from (\<lambda>tb. sb_final_score (snd tb)) x xs))
     \<and> rd_chosen_resource_type (route e tbl job)
       = tp_resource_type (fst (py_max_from (\<lambda>tb. sb_final_score (snd tb)) x xs))"
  by (simp add: route_def split: prod.splits)

lemma route_none_ok_no_fallback:
  "route_ok e tbl job = [] \<Longrightarrow> \<not> req_allow_sla_fallback job \<Longrightarrow>
     route e tbl job =
       \<lparr> rd_job_id = req_job_id job,
         rd_chosen_resource_id = ''none'',
         rd_chosen_resource_type = Edge,
         rd_considered = considered_sorted e tbl job,
         rd_explanation =
           ''No SLA-compliant resources found. Dispatch blocked because allow_sla_fallback=false. ''
           @ ''Relax SLA or enable fallback.'' \<rparr>"
  by (simp add: route_def)

text \<open>
  C2. Whenever at least one scored candidate is SLA-compliant, \<open>route\<close> chooses an
  SLA-compliant candidate of greatest \<open>final_score\<close>: it has no violation, every compliant
  candidate met before it scores strictly less and none scores more, so that of several tied
  candidates the first in encounter order wins; its id is not in \<open>exclude_resource_ids\<close>.
\<close>

theorem route_prefers_sla_compliant:
  assumes "\<exists>tb\<in>set (route_scored e tbl job). sb_sla_ok (snd tb)"
  shows "\<exists>pre t b post.
       route_ok e tbl job = pre @ (t, b) # post
     \<and> rd_chosen_resource_id (route e tbl job) = tp_resource_id t
     \<and> rd_chosen_resource_type (route e tbl job) = tp_resource_type t
     \<and> b = score_resource e t job \<and> sb_sla_ok b \<and> sb_sla_violations b = []
     \<and> (\<forall>y\<in>set pre. sb_final_score (snd y) < sb_final_score b)
     \<and> (\<forall>y\<in>set post. sb_final_score (snd y) \<le> sb_final_score b)
     \<and> (\<forall>y\<in>set (route_scored e tbl job). sb_sla_ok (snd y) \<longrightarrow> sb_final_score (snd y) \<le> sb_final_score b)
     \<and> tp_resource_id t \<notin> set (exclude_resource_ids (req_hints job))"
proof -
  let ?k = "\<lambda>tb::telemetry_point \<times> score_breakdown. sb_final_score (snd tb)"
  from assms have "route_ok e tbl job \<noteq> []" by (auto simp add: route_ok_def filter_empty_conv)
  then obtain x xs where ok: "route_ok e tbl job = x # xs" by (cases "route_ok e tbl job") auto
  obtain t b where m: "py_max_from ?k x xs = (t, b)" by (cases "py_max_from ?k x xs")
  from py_max_from_split[of x xs ?k] m obtain pre post where
    s: "x # xs = pre @ (t, b) # post"
    and p: "\<forall>y\<in>set pre. sb_final_score (snd y) < sb_final_score b"
    and q: "\<forall>y\<in>set post. sb_final_score (snd y) \<le> sb_final_score b" by auto
  have mem: "(t, b) \<in> set (route_ok e tbl job)" unfolding ok s by simp
  then have okb: "sb_sla_ok b" and sc: "(t, b) \<in> set (route_scored e tbl job)"
    by (auto simp add: route_ok_def)
  from route_scored_member[OF sc] have cand: "t \<in> set (route_candidates tbl job)"
    and b: "b = score_resource e t job" by auto
  have v: "sb_sla_violations b = []" using okb unfolding b by (simp add: score_resource_sla_ok)
  have all: "\<forall>y\<in>set (route_scored e tbl job). sb_sla_ok (snd y) \<longrightarrow> sb_final_score (snd y) \<le> sb_final_score b"
  proof (intro ballI impI)
    fix y assume "y \<in> set (route_scored e tbl job)" "sb_sla_ok (snd y)"
    then have "y \<in> set (route_ok e tbl job)" by (simp add: route_ok_def)
    then have "y \<in> set (pre @ (t, b) # post)" unfolding ok s .
    then show "sb_final_score (snd y) \<le> sb_final_score b" using p q by fastforce
  qed
  from route_ok_chosen[OF ok] m
  have ch: "rd_chosen_resource_id (route e tbl job) = tp_resource_id t"
    "rd_chosen_resource_type (route e tbl job) = tp_resource_type t" by simp_all
  have "route_ok e tbl job = pre @ (t, b) # post" using ok s by simp
  with ch b okb v p q all route_candidates_not_excluded[OF cand] show ?thesis by blast
qed


text \<open>
  C3. The claim is that \<open>route\<close> never chooses a resource whose latest telemetry
  reliability is below 0.85. A resource whose latest stored reliability is 0.0 is read back
  by \<open>list_resources_latest\<close> as 0.98 (\<open>row["reliability"] or 0.98\<close>), passes the gate of
  \<open>_eligible\<close> and is chosen.
\<close>

theorem route_reliability_floor_bypassed:
  "map tr_reliability (insert_point (point ''down-1'' Edge 50 0) []) = [Some 0]
   \<and> rd_chosen_resource_id
        (route default_env (insert_point (point ''down-1'' Edge 50 0) [])
           (job_with ''j1'' no_sla no_hints True)) = ''down-1''"
  by (simp add: route_def route_ok_def route_scored_def route_candidates_def
      list_resources_latest_def is_latest_def insert_point_def row_to_point_def or_default_def
      eligible_def or_float_def score_resource_sla_ok score_resource_violations sla_check_def
      point_def job_with_def no_sla_def no_hints_def Let_def)

lemmas route_eval = route_def route_ok_def route_bad_def route_scored_def route_candidates_def
  list_resources_latest_def is_latest_def insert_point_def row_to_point_def or_default_def
  eligible_def or_float_def point_def job_with_def no_sla_def no_hints_def tight_sla_def Let_def

lemma tie_scored:
  "route_scored default_env tie_tbl (job_with ''j1'' no_sla (excluding [''c'']) True) =
     [(point ''a'' Edge 50 0.99, score_resource default_env (point ''a'' Edge 50 0.99) (job_with ''j1'' no_sla (excluding [''c'']) True)),
      (point ''b'' Edge 50 0.99, score_resource default_env (point ''b'' Edge 50 0.99) (job_with ''j1'' no_sla (excluding [''c'']) True))]"
  by (simp add: route_eval tie_tbl_def excluding_def)


lemma sla_ok_no_sla: "sb_sla_ok (score_resource e t (job_with j no_sla h fb))"
  by (simp add: score_resource_sla_ok score_resource_violations sla_check_def job_with_def no_sla_def)

lemma final_score_point:
  "sb_final_score (score_resource default_env (point rid Edge 50 (99 / 100)) (job_with j sl h fb))
     = 47547871 / 50244316"
  by (simp add: score_resource_def eval_defs normalize_scores_def bounds_def DEFAULT_BOUNDS_def
      minmax01_def weights_of_def DEFAULT_WEIGHTS_def split: prod.splits)

theorem route_prefers_sla_compliant_witness:
  "(\<exists>tb\<in>set (route_scored default_env tie_tbl (job_with ''j1'' no_sla (excluding [''c'']) True)).
       sb_sla_ok (snd tb))
   \<and> map (tp_resource_id \<circ> fst) (route_ok default_env tie_tbl (job_with ''j1'' no_sla (excluding [''c'']) True))
       = [''a'', ''b'']
   \<and> rd_chosen_resource_id (route default_env tie_tbl (job_with ''j1'' no_sla (excluding [''c'']) True)) = ''a''"
proof -
  let ?J = "job_with ''j1'' no_sla (excluding [''c'']) True"
  let ?A = "(point ''a'' Edge 50 0.99, score_resource default_env (point ''a'' Edge 50 0.99) ?J)"
  let ?B = "(point ''b'' Edge 50 0.99, score_resource default_env (point ''b'' Edge 50 0.99) ?J)"
  have ok: "route_ok default_env tie_tbl ?J = [?A, ?B]"
    unfolding route_ok_def tie_scored by (simp add: sla_ok_no_sla)
  have h: "\<exists>tb\<in>set (route_scored default_env tie_tbl ?J). sb_sla_ok (snd tb)"
    unfolding tie_scored by (simp add: sla_ok_no_sla)
  have ids: "map (tp_resource_id \<circ> fst) (route_ok default_env tie_tbl ?J) = [''a'', ''b'']"
    unfolding ok by (simp add: point_def)
  from route_prefers_sla_compliant[OF h] obtain pre t b post where
    s: "route_ok default_env tie_tbl ?J = pre @ (t, b) # post"
    and ch: "rd_chosen_resource_id (route default_env tie_tbl ?J) = tp_resource_id t"
    and b: "b = score_resource default_env t ?J"
    and p: "\<forall>y\<in>set pre. sb_final_score (snd y) < sb_final_score b" by blast
  from s ok have "[?A, ?B] = pre @ (t, b) # post" by simp
  then have "(pre = [] \<and> (t, b) = ?A) \<or> (pre = [?A] \<and> (t, b) = ?B)"
    by (auto simp add: Cons_eq_append_conv)
  then have "t = point ''a'' Edge 50 0.99"
  proof
    assume "pre = [] \<and> (t, b) = ?A" then show ?thesis by simp
  next
    assume c: "pre = [?A] \<and> (t, b) = ?B"
    then have "sb_final_score (snd ?A) < sb_final_score (snd ?B)" using p by simp
    then show ?thesis by (simp add: final_score_point)
  qed
  then have "rd_chosen_resource_id (route default_env tie_tbl ?J) = ''a''"
    using ch by (simp add: point_def)
  with h ids show ?thesis by blast
qed


subsection \<open>Submission\<close>

lemma upsert_job_status:
  "r \<in> set (jobs (upsert_job row s)) \<Longrightarrow> job_id r = job_id row \<Longrightarrow> status r = status row"
  by (auto simp add: upsert_job_def split: if_splits)

lemma upsert_job_conflict:
  "r0 \<in> set (jobs s) \<Longrightarrow> job_id r0 = job_id row \<Longrightarrow>
     jobs (upsert_job row s) =
       map (\<lambda>r. if job_id r = job_id row
                then row\<lparr> features_json := features_json r,
                          latency_model_version := latency_model_version r,
                          cost_model_version := cost_model_version r \<rparr>
                else r) (jobs s)"
  unfolding upsert_job_def by auto

lemma upsert_job_fresh:
  "\<forall>r\<in>set (jobs s). job_id r \<noteq> job_id row \<Longrightarrow>
     jobs (upsert_job row s) =
       jobs s @ [row\<lparr> features_json := None, latency_model_version := None,
                       cost_model_version := None \<rparr>]"
  unfolding upsert_job_def by auto

lemma upsert_job_has_id: "\<exists>r\<in>set (jobs (upsert_job row s)). job_id r = job_id row"
proof (cases "\<exists>r\<in>set (jobs s). job_id r = job_id row")
  case True
  then obtain r0 where r0: "r0 \<in> set (jobs s)" "job_id r0 = job_id row" by blast
  let ?f = "\<lambda>r. if job_id r = job_id row
                then row\<lparr> features_json := features_json r,
                          latency_model_version := latency_model_version r,
                          cost_model_version := cost_model_version r \<rparr>
                else r"
  have "?f r0 \<in> set (map ?f (jobs s))" using r0(1) by (rule imageI[of r0 "set (jobs s)" ?f, folded set_map])
  moreover have "job_id (?f r0) = job_id row" using r0(2) by simp
  ultimately show ?thesis unfolding upsert_job_conflict[OF r0] by blast
next
  case False
  then have "\<forall>r\<in>set (jobs s). job_id r \<noteq> job_id row" by blast
  from upsert_job_fresh[OF this] show ?thesis by simp
qed

lemma upsert_job_has_row:
  "\<exists>r. find (\<lambda>r. job_id r = job_id row) (jobs (upsert_job row s)) = Some r"
proof (cases "find (\<lambda>r. job_id r = job_id row) (jobs (upsert_job row s))")
  case None
  then show ?thesis using upsert_job_has_id[of row s] by (simp add: find_None_iff)
next
  case (Some a)
  then show ?thesis by blast
qed

lemma get_job_add_job_event [simp]: "get_job jid (add_job_event j ev now s) = get_job jid s"
  by (simp add: get_job_def add_job_event_def)

lemma jobs_add_job_event [simp]: "jobs (add_job_event j ev now s) = jobs s"
  by (simp add: add_job_event_def)

lemma get_job_Some: "get_job jid s = Some r \<Longrightarrow> r \<in> set (jobs s) \<and> job_id r = jid"
  by (auto simp add: get_job_def find_Some_iff)

lemma submit_row_id [simp]: "job_id (submit_row job decision now) = req_job_id job"
  by (simp add: submit_row_def Let_def)

lemma submit_row_status [simp]: "status (submit_row job decision now) = submit_status decision"
  by (simp add: submit_row_def Let_def)

text \<open>
  C4. If no scored candidate is SLA-compliant and the job disallows SLA fallback, \<open>route\<close>
  returns the sentinel decision (chosen resource id \<open>none\<close>) with its explanation, and
  \<open>submit_job\<close> answers BLOCKED and persists the job with status BLOCKED.
\<close>

theorem no_compliant_no_fallback_blocked:
  assumes "\<forall>tb\<in>set (route_scored e (telemetry s) job). \<not> sb_sla_ok (snd tb)"
    and "\<not> req_allow_sla_fallback job"
  shows "rd_chosen_resource_id (route e (telemetry s) job) = ''none''
     \<and> rd_explanation (route e (telemetry s) job) =
         ''No SLA-compliant resources found. Dispatch blocked because allow_sla_fallback=false. ''
         @ ''Relax SLA or enable fallback.''
     \<and> fst (submit_job e job now s) = (BLOCKED, route e (telemetry s) job)
     \<and> (\<exists>r. get_job (req_job_id job) (snd (submit_job e job now s)) = Some r \<and> status r = BLOCKED)
     \<and> (\<forall>r\<in>set (jobs (snd (submit_job e job now s))). job_id r = req_job_id job \<longrightarrow> status r = BLOCKED)"
proof -
  let ?d = "route e (telemetry s) job"
  let ?row = "submit_row job ?d now"
  from assms(1) have ok: "route_ok e (telemetry s) job = []"
    by (auto simp add: route_ok_def filter_empty_conv)
  note r = route_none_ok_no_fallback[OF ok assms(2)]
  have c: "rd_chosen_resource_id ?d = ''none''" unfolding r by simp
  have x: "rd_explanation ?d =
         ''No SLA-compliant resources found. Dispatch blocked because allow_sla_fallback=false. ''
         @ ''Relax SLA or enable fallback.''" unfolding r by simp
  have st: "status ?row = BLOCKED" using c by (simp add: submit_status_def)
  have js: "jobs (snd (submit_job e job now s)) = jobs (upsert_job ?row s)"
    by (simp add: submit_job_def Let_def)
  have f: "fst (submit_job e job now s) = (BLOCKED, ?d)"
    using st by (simp add: submit_job_def Let_def)
  have all: "\<forall>r\<in>set (jobs (snd (submit_job e job now s))). job_id r = req_job_id job \<longrightarrow> status r = BLOCKED"
    unfolding js using upsert_job_status[of _ ?row s] st by auto
  from upsert_job_has_row[of ?row s] obtain r where
    g: "get_job (req_job_id job) (snd (submit_job e job now s)) = Some r"
    by (auto simp add: get_job_def js)
  from get_job_Some[OF g] all have "status r = BLOCKED" by blast
  with c x f g all show ?thesis by blast
qed



lemma one_edge_scored:
  "route_scored default_env one_edge (job_with j sl no_hints fb) =
     [(point ''a'' Edge 50 (99 / 100),
       score_resource default_env (point ''a'' Edge 50 (99 / 100)) (job_with j sl no_hints fb))]"
  by (simp add: route_scored_def route_candidates_def list_resources_latest_def is_latest_def
      insert_point_def row_to_point_def or_default_def eligible_def or_float_def point_def
      job_with_def no_hints_def one_edge_def Let_def)

lemma tight_sla_violated:
  "\<not> sb_sla_ok (score_resource default_env (point rid Edge 50 (99 / 100)) (job_with j tight_sla h fb))"
  by (simp add: score_resource_sla_ok score_resource_violations sla_check_def eval_defs)

theorem no_compliant_no_fallback_blocked_witness:
  "map (sb_sla_ok \<circ> snd)
       (route_scored default_env (telemetry (store_of [] one_edge)) (job_with ''j1'' tight_sla no_hints False))
     = [False]
   \<and> \<not> req_allow_sla_fallback (job_with ''j1'' tight_sla no_hints False)
   \<and> rd_chosen_resource_id (route default_env (telemetry (store_of [] one_edge))
        (job_with ''j1'' tight_sla no_hints False)) = ''none''
   \<and> fst (fst (submit_job default_env (job_with ''j1'' tight_sla no_hints False) 0 (store_of [] one_edge)))
       = BLOCKED
   \<and> (\<exists>r. get_job ''j1'' (snd (submit_job default_env (job_with ''j1'' tight_sla no_hints False) 0
             (store_of [] one_edge))) = Some r \<and> status r = BLOCKED)"
proof -
  let ?J = "job_with ''j1'' tight_sla no_hints False"
  let ?s = "store_of [] one_edge"
  have t: "telemetry ?s = one_edge" by (simp add: store_of_def)
  have m: "map (sb_sla_ok \<circ> snd) (route_scored default_env (telemetry ?s) ?J) = [False]"
    unfolding t one_edge_scored by (simp add: tight_sla_violated)
  have h1: "\<forall>tb\<in>set (route_scored default_env (telemetry ?s) ?J). \<not> sb_sla_ok (snd tb)"
    unfolding t one_edge_scored by (simp add: tight_sla_violated)
  have h2: "\<not> req_allow_sla_fallback ?J" by (simp add: job_with_def)
  have j: "req_job_id ?J = ''j1''" by (simp add: job_with_def)
  from no_compliant_no_fallback_blocked[OF h1 h2, of 0] m h2 show ?thesis
    unfolding j by simp
qed

subsection \<open>Claiming\<close>

lemma filter_same_key:
  "distinct (map f xs) \<Longrightarrow> x \<in> set xs \<Longrightarrow> filter (\<lambda>r. f r = f x) xs = [x]"
proof (induction xs)
  case Nil
  then show ?case by simp
next
  case (Cons a xs)
  show ?case
  proof (cases "a = x")
    case True
    with Cons.prems have "\<forall>r\<in>set xs. f r \<noteq> f x" by (auto simp add: image_iff)
    then have "filter (\<lambda>r. f r = f x) xs = []" by (simp add: filter_empty_conv)
    with True show ?thesis by simp
  next
    case False
    with Cons.prems have "x \<in> set xs" "f a \<noteq> f x" by auto
    with Cons show ?thesis by simp
  qed
qed

lemma same_key_same_row:
  "distinct (map f xs) \<Longrightarrow> x \<in> set xs \<Longrightarrow> r \<in> set xs \<Longrightarrow> f r = f x \<Longrightarrow> r = x"
  by (meson distinct_map inj_on_def)

lemma claim_select_None:
  "claim_select now s = None \<longleftrightarrow> (\<forall>r\<in>set (jobs s). \<not> claimable now r)"
proof -
  have "sort_key created_at (filter (claimable now) (jobs s)) = [] \<longleftrightarrow>
        filter (claimable now) (jobs s) = []"
    by (metis length_0_conv length_sort)
  then show ?thesis
    by (auto simp add: claim_select_def filter_empty_conv split: list.splits)
qed

lemma claim_select_Some:
  assumes "claim_select now s = Some row"
  shows "row \<in> set (jobs s) \<and> claimable now row
    \<and> (\<forall>r\<in>set (jobs s). claimable now r \<longrightarrow> created_at row \<le> created_at r)"
proof -
  let ?l = "sort_key created_at (filter (claimable now) (jobs s))"
  from assms obtain rest where l: "?l = row # rest"
    by (auto simp add: claim_select_def split: list.splits)
  have st: "set ?l = {r \<in> set (jobs s). claimable now r}" by simp
  have "row \<in> set ?l" unfolding l by simp
  then have a: "row \<in> set (jobs s)" "claimable now row" using st by auto
  have "sorted (map created_at ?l)" by (rule sorted_sort_key)
  then have "\<forall>r\<in>set rest. created_at row \<le> created_at r" unfolding l by simp
  then have "\<forall>r\<in>set ?l. created_at row \<le> created_at r" unfolding l by simp
  then have "\<forall>r\<in>set (jobs s). claimable now r \<longrightarrow> created_at row \<le> created_at r"
    using st by blast
  with a show ?thesis by blast
qed

lemma claim_update_none_queued:
  assumes "\<forall>r\<in>set (jobs s). job_id r = jid \<longrightarrow> status r \<noteq> QUEUED"
  shows "claim_update w now jid s = (0, s)"
proof -
  have "filter (\<lambda>r. job_id r = jid \<and> status r = QUEUED) (jobs s) = []"
    using assms by (auto simp add: filter_empty_conv)
  moreover have "map (\<lambda>r. if job_id r = jid \<and> status r = QUEUED then claim_set w now r else r) (jobs s)
      = jobs s"
    using assms by (intro map_idI) auto
  ultimately show ?thesis by (simp add: claim_update_def)
qed

lemma claim_update_one:
  assumes d: "distinct (map job_id (jobs s))" and m: "row \<in> set (jobs s)" and q: "status row = QUEUED"
  shows "claim_update w now (job_id row) s =
     (1, s\<lparr> jobs := map (\<lambda>r. if job_id r = job_id row then claim_set w now r else r) (jobs s) \<rparr>)"
proof -
  have e: "\<And>r. r \<in> set (jobs s) \<Longrightarrow> (job_id r = job_id row \<and> status r = QUEUED) = (job_id r = job_id row)"
    using same_key_same_row[OF d m] q by blast
  have "filter (\<lambda>r. job_id r = job_id row \<and> status r = QUEUED) (jobs s)
      = filter (\<lambda>r. job_id r = job_id row) (jobs s)"
    using e by (simp cong: filter_cong)
  then have c: "length (filter (\<lambda>r. job_id r = job_id row \<and> status r = QUEUED) (jobs s)) = 1"
    using filter_same_key[OF d m] by simp
  have "map (\<lambda>r. if job_id r = job_id row \<and> status r = QUEUED then claim_set w now r else r) (jobs s)
      = map (\<lambda>r. if job_id r = job_id row then claim_set w now r else r) (jobs s)"
    using e by (simp cong: map_cong)
  with c show ?thesis by (simp add: claim_update_def)
qed

lemma claim_next_job_none:
  "\<forall>r\<in>set (jobs s). \<not> claimable now r \<Longrightarrow> claim_next_job w now s = (None, s)"
  using claim_select_None[of now s] by (simp add: claim_next_job_def)

lemma claim_next_job_some:
  assumes d: "distinct (map job_id (jobs s))" and sel: "claim_select now s = Some row"
  shows "claim_next_job w now s =
     (Some row, s\<lparr> jobs := map (\<lambda>r. if job_id r = job_id row then claim_set w now r else r) (jobs s) \<rparr>)"
proof -
  from claim_select_Some[OF sel] have m: "row \<in> set (jobs s)" and q: "status row = QUEUED"
    by (auto simp add: claimable_def)
  show ?thesis using claim_update_one[OF d m q, of w now] sel by (simp add: claim_next_job_def)
qed

text \<open>
  C1. On a store whose job ids are unique (the primary key), \<open>claim_next_job\<close> picks an
  oldest job that is QUEUED with \<open>next_run_at\<close> null or not after the current instant, sets
  it RUNNING, adds one to \<open>attempts\<close>, assigns the worker and clears \<open>next_run_at\<close>, leaving
  every other job as it was; with no such job it returns \<open>None\<close> and the store unchanged; a
  conditional update that finds the job no longer QUEUED touches zero rows and changes
  nothing; and whenever the result is \<open>None\<close> the store is unchanged.
\<close>

theorem claim_next_job_spec:
  assumes "distinct (map job_id (jobs s))"
  shows "((\<forall>r\<in>set (jobs s). \<not> claimable now r) \<longrightarrow> claim_next_job w now s = (None, s))
    \<and> ((\<exists>r\<in>set (jobs s). claimable now r) \<longrightarrow>
         (\<exists>row. row \<in> set (jobs s) \<and> claimable now row
            \<and> (\<forall>r\<in>set (jobs s). claimable now r \<longrightarrow> created_at row \<le> created_at r)
            \<and> claim_next_job w now s =
                (Some row,
                 s\<lparr> jobs := map (\<lambda>r. if job_id r = job_id row
                                      then r\<lparr> status := RUNNING, worker_id := Some w, updated_at := now,
                                              attempts := attempts r + 1, next_run_at := None \<rparr>
                                      else r) (jobs s) \<rparr>)))
    \<and> ((\<forall>r\<in>set (jobs s). job_id r = jid \<longrightarrow> status r \<noteq> QUEUED) \<longrightarrow>
           claim_update w now jid s = (0, s))
    \<and> (fst (claim_next_job w now s) = None \<longrightarrow> snd (claim_next_job w now s) = s)"
proof (intro conjI impI)
  assume "\<forall>r\<in>set (jobs s). \<not> claimable now r"
  then show "claim_next_job w now s = (None, s)" by (rule claim_next_job_none)
next
  assume "\<exists>r\<in>set (jobs s). claimable now r"
  then have "claim_select now s \<noteq> None" using claim_select_None[of now s] by blast
  then obtain row where sel: "claim_select now s = Some row" by blast
  from claim_select_Some[OF sel] claim_next_job_some[OF assms sel, of w]
  show "\<exists>row. row \<in> set (jobs s) \<and> claimable now row
            \<and> (\<forall>r\<in>set (jobs s). claimable now r \<longrightarrow> created_at row \<le> created_at r)
            \<and> claim_next_job w now s =
                (Some row,
                 s\<lparr> jobs := map (\<lambda>r. if job_id r = job_id row
                                      then r\<lparr> status := RUNNING, worker_id := Some w, updated_at := now,
                                              attempts := attempts r + 1, next_run_at := None \<rparr>
                                      else r) (jobs s) \<rparr>)"
    unfolding claim_set_def by blast
next
  assume "\<forall>r\<in>set (jobs s). job_id r = jid \<longrightarrow> status r \<noteq> QUEUED"
  then show "claim_update w now jid s = (0, s)" by (rule claim_update_none_queued)
next
  assume n: "fst (claim_next_job w now s) = None"
  show "snd (claim_next_job w now s) = s"
  proof (cases "claim_select now s")
    case None
    then show ?thesis by (simp add: claim_next_job_def)
  next
    case (Some row)
    from claim_next_job_some[OF assms Some, of w] n show ?thesis by simp
  qed
qed


theorem claim_next_job_spec_witness:
  "distinct (map job_id (jobs queue3))
   \<and> map_option job_id (fst (claim_next_job ''w1'' 50 queue3)) = Some ''j3''
   \<and> map (\<lambda>r. (job_id r, status r, attempts r, worker_id r, next_run_at r))
        (jobs (snd (claim_next_job ''w1'' 50 queue3)))
      = [(''j1'', QUEUED, 1, None, Some 100), (''j2'', QUEUED, 0, None, None),
         (''j3'', RUNNING, 1, Some ''w1'', None)]"
proof -
  let ?J1 = "job_at (plain_job ''j1'') QUEUED 1 10 (Some 100)"
  let ?J2 = "job_at (plain_job ''j2'') QUEUED 0 30 None"
  let ?J3 = "job_at (plain_job ''j3'') QUEUED 0 20 (Some 40)"
  have js: "jobs queue3 = [?J1, ?J2, ?J3]" by (simp add: queue3_def store_of_def)
  have ids: "job_id ?J1 = ''j1''" "job_id ?J2 = ''j2''" "job_id ?J3 = ''j3''"
    by (simp_all add: job_at_def plain_job_def job_with_def)
  have d: "distinct (map job_id (jobs queue3))" unfolding js by (simp add: ids)
  have c: "\<not> claimable 50 ?J1" "claimable 50 ?J2" "claimable 50 ?J3"
    by (simp_all add: claimable_def job_at_def)
  have ca: "created_at ?J2 = 30" "created_at ?J3 = 20" by (simp_all add: job_at_def)
  have ex: "\<exists>r\<in>set (jobs queue3). claimable 50 r" unfolding js using c by simp
  from claim_next_job_spec[OF d, of 50 "''w1''"] ex obtain row where
    m: "row \<in> set (jobs queue3)" and cl: "claimable 50 row"
    and mn: "\<forall>r\<in>set (jobs queue3). claimable 50 r \<longrightarrow> created_at row \<le> created_at r"
    and r: "claim_next_job ''w1'' 50 queue3 =
       (Some row,
        queue3\<lparr> jobs := map (\<lambda>r. if job_id r = job_id row
                                  then r\<lparr> status := RUNNING, worker_id := Some ''w1'', updated_at := 50,
                                          attempts := attempts r + 1, next_run_at := None \<rparr>
                                  else r) (jobs queue3) \<rparr>)"
    by blast
  from mn have "created_at row \<le> created_at ?J3" unfolding js using c by simp
  then have n2: "row \<noteq> ?J2" using ca by auto
  from m cl c(1) n2 have row: "row = ?J3" unfolding js by auto
  have f: "map_option job_id (fst (claim_next_job ''w1'' 50 queue3)) = Some ''j3''"
    unfolding r row by (simp add: ids)
  have g: "map (\<lambda>r. (job_id r, status r, attempts r, worker_id r, next_run_at r))
        (jobs (snd (claim_next_job ''w1'' 50 queue3)))
      = [(''j1'', QUEUED, 1, None, Some 100), (''j2'', QUEUED, 0, None, None),
         (''j3'', RUNNING, 1, Some ''w1'', None)]"
    unfolding r row js by (simp add: job_at_def plain_job_def job_with_def)
  from d f g show ?thesis by blast
qed

subsection \<open>Cancel and manual complete\<close>

lemma map_if_other:
  "x \<in> set xs \<Longrightarrow> \<not> P x \<Longrightarrow> x \<in> set (map (\<lambda>r. if P r then g r else r) xs)"
  by (induction xs) auto

lemma map_if_hit:
  "y \<in> set (map (\<lambda>r. if P r then g r else r) xs) \<Longrightarrow>
     (\<exists>x\<in>set xs. P x \<and> y = g x) \<or> (y \<in> set xs \<and> \<not> P y)"
  by (induction xs) (auto split: if_splits)

lemma get_job_None: "get_job jid s = None \<longleftrightarrow> (\<forall>r\<in>set (jobs s). job_id r \<noteq> jid)"
  by (auto simp add: get_job_def find_None_iff)

lemma jobs_update_job:
  "jobs (update_job jid upd now s) =
     map (\<lambda>r. if job_id r = jid then (upd r)\<lparr> updated_at := now \<rparr> else r) (jobs s)"
  by (simp add: update_job_def)

lemma get_job_update_job:
  assumes "get_job jid s = Some j" and "\<And>r. job_id (upd r) = job_id r"
  shows "get_job jid (update_job jid upd now s) = Some ((upd j)\<lparr> updated_at := now \<rparr>)"
proof -
  have "\<And>xs. find (\<lambda>r. job_id r = jid) xs = Some j \<Longrightarrow>
      find (\<lambda>r. job_id r = jid) (map (\<lambda>r. if job_id r = jid then (upd r)\<lparr> updated_at := now \<rparr> else r) xs)
        = Some ((upd j)\<lparr> updated_at := now \<rparr>)"
  proof -
    fix xs show "find (\<lambda>r. job_id r = jid) xs = Some j \<Longrightarrow>
      find (\<lambda>r. job_id r = jid) (map (\<lambda>r. if job_id r = jid then (upd r)\<lparr> updated_at := now \<rparr> else r) xs)
        = Some ((upd j)\<lparr> updated_at := now \<rparr>)"
      by (induction xs) (auto simp add: assms(2))
  qed
  with assms(1) show ?thesis by (simp add: get_job_def jobs_update_job)
qed

text \<open>
  C9, as amended. \<open>cancel_job\<close> answers 404 for an unknown job id and 409 for a job that is
  COMPLETED or FAILED; for a job that is QUEUED, RUNNING or BLOCKED it succeeds, setting the
  status CANCELLED and clearing the worker assignment, and leaves every other job alone.
\<close>

theorem cancel_job_outcomes:
  "(get_job jid s = None \<longrightarrow> cancel_job jid now s = Inl (HTTPException 404 ''job_id not found''))
   \<and> (\<forall>j. get_job jid s = Some j \<and> (status j = COMPLETED \<or> status j = FAILED) \<longrightarrow>
         cancel_job jid now s =
           Inl (HTTPException 409 (''Cannot cancel job in status='' @ status_str (status j))))
   \<and> (\<forall>j. get_job jid s = Some j \<and> (status j = QUEUED \<or> status j = RUNNING \<or> status j = BLOCKED) \<longrightarrow>
         (\<exists>s'. cancel_job jid now s = Inr s'
            \<and> get_job jid s' = Some (j\<lparr> status := CANCELLED, worker_id := None, updated_at := now \<rparr>)
            \<and> (\<forall>r\<in>set (jobs s'). job_id r = jid \<longrightarrow> status r = CANCELLED \<and> worker_id r = None)
            \<and> (\<forall>r\<in>set (jobs s). job_id r \<noteq> jid \<longrightarrow> r \<in> set (jobs s'))))"
proof (intro conjI allI impI)
  assume "get_job jid s = None"
  then show "cancel_job jid now s = Inl (HTTPException 404 ''job_id not found'')"
    by (simp add: cancel_job_def)
next
  fix j assume "get_job jid s = Some j \<and> (status j = COMPLETED \<or> status j = FAILED)"
  then show "cancel_job jid now s =
           Inl (HTTPException 409 (''Cannot cancel job in status='' @ status_str (status j)))"
    by (auto simp add: cancel_job_def)
next
  fix j assume a: "get_job jid s = Some j \<and> (status j = QUEUED \<or> status j = RUNNING \<or> status j = BLOCKED)"
  let ?upd = "\<lambda>r. r\<lparr> status := CANCELLED, worker_id := None \<rparr>"
  let ?s' = "add_job_event jid ''CANCELLED'' now (update_job jid ?upd now s)"
  have c: "cancel_job jid now s = Inr ?s'" using a by (auto simp add: cancel_job_def)
  have g: "get_job jid ?s' = Some (j\<lparr> status := CANCELLED, worker_id := None, updated_at := now \<rparr>)"
    using get_job_update_job[of jid s j ?upd now] a by simp
  have x: "\<forall>r\<in>set (jobs ?s'). job_id r = jid \<longrightarrow> status r = CANCELLED \<and> worker_id r = None"
  proof (intro ballI impI)
    fix r assume r: "r \<in> set (jobs ?s')" and i: "job_id r = jid"
    from r have "r \<in> set (map (\<lambda>r. if job_id r = jid then (?upd r)\<lparr> updated_at := now \<rparr> else r) (jobs s))"
      by (simp add: jobs_update_job)
    from map_if_hit[OF this] i obtain x0 where "r = (?upd x0)\<lparr> updated_at := now \<rparr>" by blast
    then show "status r = CANCELLED \<and> worker_id r = None" by simp
  qed
  have y: "\<forall>r\<in>set (jobs s). job_id r \<noteq> jid \<longrightarrow> r \<in> set (jobs ?s')"
  proof (intro ballI impI)
    fix r assume "r \<in> set (jobs s)" "job_id r \<noteq> jid"
    then have "r \<in> set (map (\<lambda>r. if job_id r = jid then (?upd r)\<lparr> updated_at := now \<rparr> else r) (jobs s))"
      by (rule map_if_other)
    then show "r \<in> set (jobs ?s')" by (simp add: jobs_update_job)
  qed
  from c g x y show "\<exists>s'. cancel_job jid now s = Inr s'
            \<and> get_job jid s' = Some (j\<lparr> status := CANCELLED, worker_id := None, updated_at := now \<rparr>)
            \<and> (\<forall>r\<in>set (jobs s'). job_id r = jid \<longrightarrow> status r = CANCELLED \<and> worker_id r = None)
            \<and> (\<forall>r\<in>set (jobs s). job_id r \<noteq> jid \<longrightarrow> r \<in> set (jobs s'))"
    by blast
qed

lemma one_job_get: "get_job ''j1'' (one_job st n) = Some (job_at (plain_job ''j1'') st n 10 None)"
  by (simp add: one_job_def store_of_def get_job_def job_at_def plain_job_def job_with_def)

lemma one_job_get_other: "get_job ''zz'' (one_job st n) = None"
  by (simp add: one_job_def store_of_def get_job_def job_at_def plain_job_def job_with_def)

theorem cancel_job_outcomes_witness:
  "get_job ''zz'' (one_job RUNNING 1) = None
   \<and> cancel_job ''zz'' 50 (one_job RUNNING 1) = Inl (HTTPException 404 ''job_id not found'')
   \<and> map_option status (get_job ''j1'' (one_job FAILED 2)) = Some FAILED
   \<and> cancel_job ''j1'' 50 (one_job FAILED 2) = Inl (HTTPException 409 ''Cannot cancel job in status=FAILED'')
   \<and> map_option status (get_job ''j1'' (one_job RUNNING 1)) = Some RUNNING
   \<and> (\<exists>s'. cancel_job ''j1'' 50 (one_job RUNNING 1) = Inr s'
         \<and> map_option status (get_job ''j1'' s') = Some CANCELLED
         \<and> map_option worker_id (get_job ''j1'' s') = Some None)"
proof -
  note T1 = cancel_job_outcomes[of "''zz''" "one_job RUNNING 1" 50, THEN conjunct1, rule_format]
  note T2 = cancel_job_outcomes[of "''j1''" "one_job FAILED 2" 50, THEN conjunct2, THEN conjunct1,
      rule_format]
  note T3 = cancel_job_outcomes[of "''j1''" "one_job RUNNING 1" 50, THEN conjunct2, THEN conjunct2,
      rule_format]
  let ?F = "job_at (plain_job ''j1'') FAILED 2 10 None"
  let ?R = "job_at (plain_job ''j1'') RUNNING 1 10 None"
  have z: "get_job ''zz'' (one_job RUNNING 1) = None" by (rule one_job_get_other)
  have a: "cancel_job ''zz'' 50 (one_job RUNNING 1) = Inl (HTTPException 404 ''job_id not found'')"
    by (rule T1[OF z])
  have sf: "status ?F = FAILED" and sr: "status ?R = RUNNING" by (simp_all add: job_at_def)
  have gf: "map_option status (get_job ''j1'' (one_job FAILED 2)) = Some FAILED"
    unfolding one_job_get using sf by simp
  have gr: "map_option status (get_job ''j1'' (one_job RUNNING 1)) = Some RUNNING"
    unfolding one_job_get using sr by simp
  have "cancel_job ''j1'' 50 (one_job FAILED 2)
      = Inl (HTTPException 409 (''Cannot cancel job in status='' @ status_str (status ?F)))"
    by (rule T2) (simp add: one_job_get sf)
  then have b: "cancel_job ''j1'' 50 (one_job FAILED 2)
      = Inl (HTTPException 409 ''Cannot cancel job in status=FAILED'')"
    unfolding sf by simp
  have "\<exists>s'. cancel_job ''j1'' 50 (one_job RUNNING 1) = Inr s'
      \<and> get_job ''j1'' s' = Some (?R\<lparr> status := CANCELLED, worker_id := None, updated_at := 50 \<rparr>)
      \<and> (\<forall>r\<in>set (jobs s'). job_id r = ''j1'' \<longrightarrow> status r = CANCELLED \<and> worker_id r = None)
      \<and> (\<forall>r\<in>set (jobs (one_job RUNNING 1)). job_id r \<noteq> ''j1'' \<longrightarrow> r \<in> set (jobs s'))"
    by (rule T3) (simp add: one_job_get sr)
  then obtain s' where
    c: "cancel_job ''j1'' 50 (one_job RUNNING 1) = Inr s'"
    and g: "get_job ''j1'' s' = Some (?R\<lparr> status := CANCELLED, worker_id := None, updated_at := 50 \<rparr>)"
    by blast
  have h: "map_option status (get_job ''j1'' s') = Some CANCELLED"
    "map_option worker_id (get_job ''j1'' s') = Some None" unfolding g by simp_all
  from c h have e: "\<exists>s'. cancel_job ''j1'' 50 (one_job RUNNING 1) = Inr s'
         \<and> map_option status (get_job ''j1'' s') = Some CANCELLED
         \<and> map_option worker_id (get_job ''j1'' s') = Some None" by blast
  from z a gf b gr e show ?thesis by (intro conjI)
qed

lemma one_job_jobs: "jobs (one_job st n) = [job_at (plain_job ''j1'') st n 10 None]"
  by (simp add: one_job_def store_of_def)

lemma job_at_id: "job_id (job_at req st n c nra) = req_job_id req"
  and job_at_status: "status (job_at req st n c nra) = st"
  by (simp_all add: job_at_def)

lemma plain_job_id: "req_job_id (plain_job jid) = jid"
  by (simp add: plain_job_def job_with_def)

text \<open>
  The claim as stated fails: the guard of \<open>cancel_job\<close> is the deny-list (COMPLETED, FAILED),
  so a BLOCKED job is cancelled, and a job already CANCELLED is accepted again, not refused.
\<close>

theorem cancel_blocked_job_accepted:
  "map status (jobs (one_job BLOCKED 0)) = [BLOCKED]
   \<and> \<not> isl (cancel_job ''j1'' 50 (one_job BLOCKED 0))
   \<and> map status (jobs (projr (cancel_job ''j1'' 50 (one_job BLOCKED 0)))) = [CANCELLED]
   \<and> map status (jobs (one_job CANCELLED 1)) = [CANCELLED]
   \<and> \<not> isl (cancel_job ''j1'' 50 (one_job CANCELLED 1))"
  by (simp add: cancel_job_def one_job_get jobs_update_job one_job_jobs job_at_id job_at_status
      plain_job_id)

subsection \<open>Terminal statuses\<close>












lemma jobs_update_attempt [simp]: "jobs (update_attempt aid upd s) = jobs s"
  by (simp add: update_attempt_def)







subsection \<open>The monitor and the claim on a store with terminal jobs\<close>











subsection \<open>Resubmission\<close>

lemma find_map_if:
  "find P xs = Some x \<Longrightarrow> (\<And>r. P r \<Longrightarrow> P (g r)) \<Longrightarrow>
     find P (map (\<lambda>r. if P r then g r else r) xs) = Some (g x)"
  by (induction xs) (auto split: if_splits)

lemma map_key_map_if:
  "(\<And>r. P r \<Longrightarrow> f (g r) = f r) \<Longrightarrow> map f (map (\<lambda>r. if P r then g r else r) xs) = map f xs"
  by (induction xs) auto

lemma jobs_submit_job:
  "jobs (snd (submit_job e job now s)) = jobs (upsert_job (submit_row job (route e (telemetry s) job) now) s)"
  by (simp add: submit_job_def Let_def)

lemma submit_status_cases: "submit_status d = QUEUED \<or> submit_status d = BLOCKED"
  by (simp add: submit_status_def)

text \<open>
  C10. Submitting a job whose id is already in the store does not fail and adds no row:
  the existing row is overwritten with a fresh one, QUEUED or BLOCKED, with zero attempts, no
  worker, no backoff gate, the new decision's resource and predictions, no actuals, and both
  timestamps set to the instant of the resubmission; every other job is left alone.
\<close>

theorem resubmit_overwrites_job:
  assumes "get_job (req_job_id job) s = Some old"
  shows "fst (submit_job e job now s)
           = (submit_status (route e (telemetry s) job), route e (telemetry s) job)
     \<and> map job_id (jobs (snd (submit_job e job now s))) = map job_id (jobs s)
     \<and> (\<exists>r. get_job (req_job_id job) (snd (submit_job e job now s)) = Some r
           \<and> status r = submit_status (route e (telemetry s) job)
           \<and> (status r = QUEUED \<or> status r = BLOCKED)
           \<and> attempts r = 0 \<and> max_attempts r = 2 \<and> next_run_at r = None \<and> worker_id r = None
           \<and> created_at r = now \<and> updated_at r = now
           \<and> chosen_resource_id r = Some (rd_chosen_resource_id (route e (telemetry s) job))
           \<and> chosen_resource_type r = Some (rd_chosen_resource_type (route e (telemetry s) job))
           \<and> predicted_latency_ms r
                = map_option sb_latency_pred_ms (chosen_score_of (route e (telemetry s) job))
           \<and> predicted_cost_usd r
                = map_option sb_cost_pred_usd (chosen_score_of (route e (telemetry s) job))
           \<and> final_score r = map_option sb_final_score (chosen_score_of (route e (telemetry s) job))
           \<and> actual_latency_ms r = None \<and> actual_cost_usd r = None \<and> output_ref r = None)
     \<and> (\<forall>r\<in>set (jobs s). job_id r \<noteq> req_job_id job \<longrightarrow> r \<in> set (jobs (snd (submit_job e job now s))))"
proof -
  let ?d = "route e (telemetry s) job"
  let ?row = "submit_row job ?d now"
  let ?g = "\<lambda>r. ?row\<lparr> features_json := features_json r,
                       latency_model_version := latency_model_version r,
                       cost_model_version := cost_model_version r \<rparr>"
  let ?P = "\<lambda>r. job_id r = req_job_id job"
  from get_job_Some[OF assms] have m: "old \<in> set (jobs s)" and i: "job_id old = job_id ?row" by simp_all
  have js: "jobs (snd (submit_job e job now s)) = map (\<lambda>r. if ?P r then ?g r else r) (jobs s)"
    unfolding jobs_submit_job using upsert_job_conflict[OF m i] by simp
  have a: "fst (submit_job e job now s) = (submit_status ?d, ?d)"
    by (simp add: submit_job_def Let_def)
  have b: "map job_id (jobs (snd (submit_job e job now s))) = map job_id (jobs s)"
    unfolding js by (rule map_key_map_if) simp
  have "find ?P (map (\<lambda>r. if ?P r then ?g r else r) (jobs s)) = Some (?g old)"
    by (rule find_map_if) (use assms in \<open>simp_all add: get_job_def\<close>)
  then have g: "get_job (req_job_id job) (snd (submit_job e job now s)) = Some (?g old)"
    by (simp add: get_job_def js)
  have f: "status (?g old) = submit_status ?d"
    "attempts (?g old) = 0" "max_attempts (?g old) = 2" "next_run_at (?g old) = None"
    "worker_id (?g old) = None" "created_at (?g old) = now" "updated_at (?g old) = now"
    "chosen_resource_id (?g old) = Some (rd_chosen_resource_id ?d)"
    "chosen_resource_type (?g old) = Some (rd_chosen_resource_type ?d)"
    "predicted_latency_ms (?g old) = map_option sb_latency_pred_ms (chosen_score_of ?d)"
    "predicted_cost_usd (?g old) = map_option sb_cost_pred_usd (chosen_score_of ?d)"
    "final_score (?g old) = map_option sb_final_score (chosen_score_of ?d)"
    "actual_latency_ms (?g old) = None" "actual_cost_usd (?g old) = None" "output_ref (?g old) = None"
    by (simp_all add: submit_row_def Let_def)
  have c: "\<forall>r\<in>set (jobs s). job_id r \<noteq> req_job_id job \<longrightarrow> r \<in> set (jobs (snd (submit_job e job now s)))"
  proof (intro ballI impI)
    fix r assume "r \<in> set (jobs s)" "job_id r \<noteq> req_job_id job"
    then show "r \<in> set (jobs (snd (submit_job e job now s)))" unfolding js by (rule map_if_other)
  qed
  from g f submit_status_cases[of ?d]
  have ex: "\<exists>r. get_job (req_job_id job) (snd (submit_job e job now s)) = Some r
           \<and> status r = submit_status ?d
           \<and> (status r = QUEUED \<or> status r = BLOCKED)
           \<and> attempts r = 0 \<and> max_attempts r = 2 \<and> next_run_at r = None \<and> worker_id r = None
           \<and> created_at r = now \<and> updated_at r = now
           \<and> chosen_resource_id r = Some (rd_chosen_resource_id ?d)
           \<and> chosen_resource_type r = Some (rd_chosen_resource_type ?d)
           \<and> predicted_latency_ms r = map_option sb_latency_pred_ms (chosen_score_of ?d)
           \<and> predicted_cost_usd r = map_option sb_cost_pred_usd (chosen_score_of ?d)
           \<and> final_score r = map_option sb_final_score (chosen_score_of ?d)
           \<and> actual_latency_ms r = None \<and> actual_cost_usd r = None \<and> output_ref r = None"
    by (intro exI[of _ "?g old"] conjI) simp_all
  from a b ex c show ?thesis by (intro conjI)
qed


lemma route_one_edge_no_sla:
  "rd_chosen_resource_id (route default_env one_edge (job_with j no_sla no_hints fb)) = ''a''"
proof -
  let ?J = "job_with j no_sla no_hints fb"
  have "route_ok default_env one_edge ?J =
      [(point ''a'' Edge 50 (99 / 100), score_resource default_env (point ''a'' Edge 50 (99 / 100)) ?J)]"
    unfolding route_ok_def one_edge_scored by (simp add: sla_ok_no_sla)
  from route_ok_chosen[OF this] show ?thesis by (simp add: point_def)
qed

theorem resubmit_overwrites_job_witness:
  "map_option status (get_job ''j1'' (one_job COMPLETED 2)) = Some COMPLETED
   \<and> map_option attempts (get_job ''j1'' (one_job COMPLETED 2)) = Some 2
   \<and> map job_id (jobs (snd (submit_job default_env (plain_job ''j1'') 99 (one_job COMPLETED 2)))) = [''j1'']
   \<and> (\<exists>r. get_job ''j1'' (snd (submit_job default_env (plain_job ''j1'') 99 (one_job COMPLETED 2))) = Some r
         \<and> status r = QUEUED \<and> attempts r = 0 \<and> created_at r = 99 \<and> worker_id r = None)"
proof -
  let ?S = "one_job COMPLETED 2"
  let ?old = "job_at (plain_job ''j1'') COMPLETED 2 10 None"
  have g: "get_job (req_job_id (plain_job ''j1'')) ?S = Some ?old"
    by (simp add: plain_job_id one_job_get)
  have t: "telemetry ?S = one_edge" by (simp add: one_job_def store_of_def)
  have "rd_chosen_resource_id (route default_env (telemetry ?S) (plain_job ''j1'')) = ''a''"
    unfolding t plain_job_def by (rule route_one_edge_no_sla)
  then have q: "submit_status (route default_env (telemetry ?S) (plain_job ''j1'')) = QUEUED"
    by (simp add: submit_status_def)
  note T = resubmit_overwrites_job[OF g, of default_env 99]
  from T have ids: "map job_id (jobs (snd (submit_job default_env (plain_job ''j1'') 99 ?S)))
      = map job_id (jobs ?S)" by blast
  from T obtain r where
    r: "get_job (req_job_id (plain_job ''j1'')) (snd (submit_job default_env (plain_job ''j1'') 99 ?S)) = Some r"
    "status r = submit_status (route default_env (telemetry ?S) (plain_job ''j1''))"
    "attempts r = 0" "created_at r = 99" "worker_id r = None" by blast
  have a: "map_option status (get_job ''j1'' ?S) = Some COMPLETED"
    "map_option attempts (get_job ''j1'' ?S) = Some 2"
    by (simp_all add: one_job_get job_at_def)
  have b: "map job_id (jobs (snd (submit_job default_env (plain_job ''j1'') 99 ?S))) = [''j1'']"
    unfolding ids by (simp add: one_job_jobs job_at_id plain_job_id)
  from r q have "\<exists>r. get_job ''j1'' (snd (submit_job default_env (plain_job ''j1'') 99 ?S)) = Some r
         \<and> status r = QUEUED \<and> attempts r = 0 \<and> created_at r = 99 \<and> worker_id r = None"
    by (simp add: plain_job_id)
  with a b show ?thesis by (intro conjI)
qed

subsection \<open>Dispatcher\<close>

lemma run_adapter_not_forced: "run_adapter ad row \<noteq> Inl ForcedFailFirst"
  by (simp add: run_adapter_def Let_def split: sum.splits prod.splits)

lemma or_int_zero [simp]: "or_int x 0 = x"
  by (simp add: or_int_def)

lemma stored_request_invalid:
  "job_request_json row = Some (InvalidRequest raw) \<Longrightarrow> stored_request row = None"
  by (simp add: stored_request_def)

lemma dispatch_forced_iff:
  "(dispatch ad row = Inl ForcedFailFirst)
     = (\<exists>r. stored_request row = Some r \<and> force_fail_first (req_hints r) \<and> attempts row = 1)"
  using run_adapter_not_forced[of ad row]
  by (cases "stored_request row") (simp_all add: dispatch_def Let_def)

text \<open>
  C7, as amended. For a job whose stored request validates and carries \<open>force_fail_first\<close>,
  \<open>dispatch\<close> raises the forced failure exactly when the attempts counter is 1, and otherwise
  runs the adapter; the only exception \<open>dispatch\<close> swallows is the validation error of the
  stored payload, and no outcome of the adapter is the forced failure, so a forced failure
  that is raised is not swallowed. A stored payload that fails validation is tolerated at the
  price of the hint: whatever its text, \<open>dispatch\<close> then raises no forced failure and runs the
  adapter. In all, the forced failure is raised exactly for a stored request that validates,
  carries the hint and is on its first attempt.
\<close>

theorem forced_failure_first_attempt_only:
  "(stored_request row = Some req \<and> force_fail_first (req_hints req) \<longrightarrow>
       ((dispatch ad row = Inl ForcedFailFirst) = (attempts row = 1))
     \<and> (attempts row \<noteq> 1 \<longrightarrow> dispatch ad row = run_adapter ad row))
   \<and> (stored_request row = None \<longrightarrow> dispatch ad row = run_adapter ad row)
   \<and> run_adapter ad row \<noteq> Inl ForcedFailFirst
   \<and> (job_request_json row = Some (InvalidRequest raw) \<longrightarrow>
        stored_request row = None \<and> dispatch ad row = run_adapter ad row
        \<and> dispatch ad row \<noteq> Inl ForcedFailFirst)
   \<and> ((dispatch ad row = Inl ForcedFailFirst)
        = (\<exists>r. stored_request row = Some r \<and> force_fail_first (req_hints r) \<and> attempts row = 1))"
proof -
  have A: "stored_request row = Some req \<and> force_fail_first (req_hints req) \<longrightarrow>
       ((dispatch ad row = Inl ForcedFailFirst) = (attempts row = 1))
     \<and> (attempts row \<noteq> 1 \<longrightarrow> dispatch ad row = run_adapter ad row)"
    using run_adapter_not_forced[of ad row] by (simp add: dispatch_def Let_def)
  have B: "stored_request row = None \<longrightarrow> dispatch ad row = run_adapter ad row"
    by (simp add: dispatch_def Let_def)
  have C: "run_adapter ad row \<noteq> Inl ForcedFailFirst" by (rule run_adapter_not_forced)
  have D: "job_request_json row = Some (InvalidRequest raw) \<longrightarrow>
        stored_request row = None \<and> dispatch ad row = run_adapter ad row
        \<and> dispatch ad row \<noteq> Inl ForcedFailFirst"
    using run_adapter_not_forced[of ad row]
    by (simp add: stored_request_invalid dispatch_def Let_def)
  have E: "(dispatch ad row = Inl ForcedFailFirst)
        = (\<exists>r. stored_request row = Some r \<and> force_fail_first (req_hints r) \<and> attempts row = 1)"
    by (rule dispatch_forced_iff)
  from A B C D E show ?thesis by (intro conjI)
qed

theorem forced_failure_first_attempt_only_witness:
  "stored_request (job_at (job_with ''j1'' no_sla fail_first True) RUNNING 1 10 None)
     = Some (job_with ''j1'' no_sla fail_first True)
   \<and> force_fail_first (req_hints (job_with ''j1'' no_sla fail_first True))
   \<and> dispatch sim_adapter (job_at (job_with ''j1'' no_sla fail_first True) RUNNING 1 10 None)
       = Inl ForcedFailFirst
   \<and> dispatch sim_adapter (job_at (job_with ''j1'' no_sla fail_first True) RUNNING 2 10 None)
       = Inr result1
   \<and> job_request_json (masked_row 1) = Some masked_payload
   \<and> attempts (masked_row 1) = 1
   \<and> stored_request (masked_row 1) = None
   \<and> dispatch sim_adapter (masked_row 1) = Inr result1"
proof -
  let ?req = "job_with ''j1'' no_sla fail_first True"
  let ?r1 = "job_at ?req RUNNING 1 10 None" and ?r2 = "job_at ?req RUNNING 2 10 None"
  have s: "stored_request ?r1 = Some ?req" "stored_request ?r2 = Some ?req"
    by (simp_all add: stored_request_def job_at_def model_dump_json_def)
  have f: "force_fail_first (req_hints ?req)" by (simp add: job_with_def fail_first_def)
  have a: "attempts ?r1 = 1" "attempts ?r2 \<noteq> 1" by (simp_all add: job_at_def)
  have "(dispatch sim_adapter ?r1 = Inl ForcedFailFirst) = (attempts ?r1 = 1)"
    using forced_failure_first_attempt_only[of ?r1 ?req sim_adapter] s(1) f by blast
  then have d1: "dispatch sim_adapter ?r1 = Inl ForcedFailFirst" using a(1) by simp
  have "dispatch sim_adapter ?r2 = run_adapter sim_adapter ?r2"
    using forced_failure_first_attempt_only[of ?r2 ?req sim_adapter] s(2) f a(2) by blast
  then have d2: "dispatch sim_adapter ?r2 = Inr result1"
    by (simp add: run_adapter_def sim_adapter_def Let_def)
  have m: "job_request_json (masked_row 1) = Some masked_payload"
    and am: "attempts (masked_row 1) = 1"
    by (simp_all add: masked_row_def job_at_def)
  obtain raw where p: "masked_payload = InvalidRequest raw" by (simp add: masked_payload_def)
  have mi: "job_request_json (masked_row 1) = Some (InvalidRequest raw)"
    using m p by simp
  have "stored_request (masked_row 1) = None
      \<and> dispatch sim_adapter (masked_row 1) = run_adapter sim_adapter (masked_row 1)"
    using forced_failure_first_attempt_only[of "masked_row 1" ?req sim_adapter raw] mi by blast
  then have sm: "stored_request (masked_row 1) = None"
    and d3: "dispatch sim_adapter (masked_row 1) = Inr result1"
    by (simp_all add: run_adapter_def sim_adapter_def Let_def)
  from s(1) f d1 d2 m am sm d3 show ?thesis by (intro conjI)
qed

text \<open>
  The claim as stated fails on a stored payload that carries the hint and does not validate:
  on the first attempt \<open>dispatch\<close> swallows the validation error, raises nothing and returns
  the adapter's result, where the same job with a payload that validates raises the forced
  failure. The parsing error masks the hint.
\<close>

theorem validation_error_masks_forced_failure:
  "job_request_json (masked_row 1) = Some (InvalidRequest
     ''{\"job_id\": \"j1\", \"job_type\": \"batch\", \"urgency\": 0.5, \"hints\": {\"force_fail_first\": true}}'')
   \<and> model_validate_json masked_payload = None
   \<and> attempts (masked_row 1) = 1
   \<and> dispatch sim_adapter (masked_row 1) = Inr result1
   \<and> dispatch sim_adapter (job_at (job_with ''j1'' no_sla fail_first True) RUNNING 1 10 None)
       = Inl ForcedFailFirst"
  by (simp add: masked_row_def masked_payload_def job_at_def dispatch_def stored_request_def
      run_adapter_def sim_adapter_def model_dump_json_def job_with_def fail_first_def Let_def)

subsection \<open>Failure handling in the worker\<close>










lemma jobs_update_attempt2 [simp]: "jobs (update_attempt aid upd s) = jobs s"
  by (simp add: update_attempt_def)

lemma telemetry_steps [simp]:
  "telemetry (update_attempt aid upd s) = telemetry s"
  "telemetry (update_job jid f now s) = telemetry s"
  "telemetry (add_job_event jid ev now s) = telemetry s"
  by (simp_all add: update_attempt_def update_job_def add_job_event_def)

lemma job_attempts_steps [simp]:
  "job_attempts (update_job jid f now s) = job_attempts s"
  "job_attempts (add_job_event jid ev now s) = job_attempts s"
  by (simp_all add: update_job_def add_job_event_def)

lemma get_job_update_attempt [simp]: "get_job jid (update_attempt aid upd s) = get_job jid s"
  by (simp add: get_job_def)

lemma reroute_fields_keeps [simp]:
  "job_id (reroute_fields d r) = job_id r"
  "status (reroute_fields d r) = status r"
  "attempts (reroute_fields d r) = attempts r"
  "max_attempts (reroute_fields d r) = max_attempts r"
  "chosen_resource_id (reroute_fields d r) = Some (rd_chosen_resource_id d)"
  by (simp_all add: reroute_fields_def Let_def)




















end
